theory Spec2Isabelle
  imports Main
begin

section \<open>Text constants of the two actions\<close>

text \<open>
  The string constants of the source, byte for byte: a character outside ASCII stands as
  the bytes of its UTF-8 encoding.
\<close>

text \<open>
  \<^verbatim>\<open>PROMPT_TEMPLATE.format(design=..., task=..., code=..., logs=..., feedback=...,
  filename=..., summary_log=...)\<close>: the template names \<^verbatim>\<open>filename\<close> four times and
  the other five fields once; \<^verbatim>\<open>summary_log\<close> is not in the template and is ignored.
\<close>

definition PROMPT_TEMPLATE_format ::
  "string \<Rightarrow> string \<Rightarrow> string \<Rightarrow> string \<Rightarrow> string \<Rightarrow> string \<Rightarrow> string" where
  \<open>PROMPT_TEMPLATE_format design task code logs feedback fname =
     ''\<newline>'' @
     ''# File Generation Task\<newline>'' @
     ''\<newline>'' @
     ''You are generating exactly ONE file: '' @
     fname @
     ''\<newline>'' @
     ''\<newline>'' @
     ''## Project Structure\<newline>'' @
     ''The project has a specific structure:\<newline>'' @
     ''- Project root/ (e.g., projectname/)\<newline>'' @
     ''  - package.json (SINGLE package.json for the entire project)\<newline>'' @
     ''  - frontend/ (Contains all frontend code)\<newline>'' @
     ''  - backend/ (Contains all backend code)\<newline>'' @
     ''\<newline>'' @
     ''## CRITICAL INSTRUCTIONS\<newline>'' @
     ''\<newline>'' @
     ''1. Generate ONLY the file named: '' @
     fname @
     ''\<newline>'' @
     ''2. Place this file EXACTLY at the path shown - DO NOT create any nested directories\<newline>'' @
     ''3. Create complete, functional code - no placeholders\<newline>'' @
     ''4. Use RELATIVE imports within the project structure\<newline>'' @
     ''\<newline>'' @
     ''## IMPORTANT PATH RULES:\<newline>'' @
     ''- '' @ [CHR 0xE2, CHR 0x9C, CHR 0x85] @ '' CORRECT: projectname/package.json\<newline>'' @
     ''- '' @ [CHR 0xE2, CHR 0x9C, CHR 0x85] @ '' CORRECT: projectname/frontend/...\<newline>'' @
     ''- '' @ [CHR 0xE2, CHR 0x9C, CHR 0x85] @ '' CORRECT: projectname/backend/...\<newline>'' @
     ''- '' @ [CHR 0xE2, CHR 0x9D, CHR 0x8C] @ '' WRONG: projectname/frontend/package.json\<newline>'' @
     ''- '' @ [CHR 0xE2, CHR 0x9D, CHR 0x8C] @ '' WRONG: projectname/backend/package.json\<newline>'' @
     ''- '' @ [CHR 0xE2, CHR 0x9D, CHR 0x8C] @ '' WRONG: projectname/frontend/frontend/...\<newline>'' @
     ''- '' @ [CHR 0xE2, CHR 0x9D, CHR 0x8C] @ '' WRONG: projectname/backend/backend/...\<newline>'' @
     ''\<newline>'' @
     ''## SPECIAL CASES:\<newline>'' @
     ''- If '' @
     fname @
     '' is "package.json", include ALL necessary dependencies for BOTH frontend and backend\<newline>'' @
     ''\<newline>'' @
     ''## Context for This File\<newline>'' @
     ''\<newline>'' @
     ''Design Information:\<newline>'' @
     design @
     ''\<newline>'' @
     ''\<newline>'' @
     ''Task Description:\<newline>'' @
     task @
     ''\<newline>'' @
     ''\<newline>'' @
     ''Related Code:\<newline>'' @
     ''```\<newline>'' @
     code @
     ''\<newline>'' @
     ''```\<newline>'' @
     ''\<newline>'' @
     ''Debug Information:\<newline>'' @
     ''```\<newline>'' @
     logs @
     ''\<newline>'' @
     ''```\<newline>'' @
     ''\<newline>'' @
     ''Feedback:\<newline>'' @
     feedback @
     ''\<newline>''\<close>

text \<open>The content of the one entry of \<^verbatim>\<open>critical_files\<close>, keyed \<^verbatim>\<open>package.json\<close>.\<close>

definition package_json_content :: string where
  \<open>package_json_content =
     ''{\<newline>'' @
     ''  "name": "project",\<newline>'' @
     ''  "version": "1.0.0",\<newline>'' @
     ''  "description": "A full-stack application",\<newline>'' @
     ''  "scripts": {\<newline>'' @
     ''    "start": "concurrently '' @ [CHR 0x5C] @ ''"npm run start:frontend'' @ [CHR 0x5C] @ ''" '' @ [CHR 0x5C] @ ''"npm run start:backend'' @ [CHR 0x5C] @ ''"",\<newline>'' @
     ''    "start:frontend": "cd frontend && react-scripts start",\<newline>'' @
     ''    "start:backend": "cd backend && node server.js",\<newline>'' @
     ''    "build": "cd frontend && react-scripts build",\<newline>'' @
     ''    "test": "cd frontend && react-scripts test",\<newline>'' @
     ''    "eject": "cd frontend && react-scripts eject"\<newline>'' @
     ''  },\<newline>'' @
     ''  "dependencies": {\<newline>'' @
     ''    "concurrently": "^7.6.0"\<newline>'' @
     ''  },\<newline>'' @
     ''  "frontend": {\<newline>'' @
     ''    "dependencies": {\<newline>'' @
     ''      "react": "^18.2.0",\<newline>'' @
     ''      "react-dom": "^18.2.0",\<newline>'' @
     ''      "react-scripts": "5.0.1"\<newline>'' @
     ''    }\<newline>'' @
     ''  },\<newline>'' @
     ''  "backend": {\<newline>'' @
     ''    "dependencies": {\<newline>'' @
     ''      "express": "^4.18.2",\<newline>'' @
     ''      "cors": "^2.8.5",\<newline>'' @
     ''      "body-parser": "^1.20.1"\<newline>'' @
     ''    }\<newline>'' @
     ''  },\<newline>'' @
     ''  "browserslist": {\<newline>'' @
     ''    "production": [\<newline>'' @
     ''      ">0.2%",\<newline>'' @
     ''      "not dead",\<newline>'' @
     ''      "not op_mini all"\<newline>'' @
     ''    ],\<newline>'' @
     ''    "development": [\<newline>'' @
     ''      "last 1 chrome version",\<newline>'' @
     ''      "last 1 firefox version",\<newline>'' @
     ''      "last 1 safari version"\<newline>'' @
     ''    ]\<newline>'' @
     ''  }\<newline>'' @
     ''}''\<close>

definition REACT_NODE_TEMPLATE :: string where
  \<open>REACT_NODE_TEMPLATE =
     ''\<newline>'' @
     ''# React Frontend and Node.js Backend Application Architecture\<newline>'' @
     ''\<newline>'' @
     ''## Project Structure\<newline>'' @
     ''```\<newline>'' @
     ''project_root/\<newline>'' @
     [CHR 0xE2, CHR 0x94, CHR 0x9C, CHR 0xE2, CHR 0x94, CHR 0x80, CHR 0xE2, CHR 0x94, CHR 0x80] @ '' frontend/\<newline>'' @
     [CHR 0xE2, CHR 0x94, CHR 0x82] @ ''   '' @ [CHR 0xE2, CHR 0x94, CHR 0x9C, CHR 0xE2, CHR 0x94, CHR 0x80, CHR 0xE2, CHR 0x94, CHR 0x80] @ '' public/\<newline>'' @
     [CHR 0xE2, CHR 0x94, CHR 0x82] @ ''   '' @ [CHR 0xE2, CHR 0x94, CHR 0x82] @ ''   '' @ [CHR 0xE2, CHR 0x94, CHR 0x9C, CHR 0xE2, CHR 0x94, CHR 0x80, CHR 0xE2, CHR 0x94, CHR 0x80] @ '' index.html\<newline>'' @
     [CHR 0xE2, CHR 0x94, CHR 0x82] @ ''   '' @ [CHR 0xE2, CHR 0x94, CHR 0x82] @ ''   '' @ [CHR 0xE2, CHR 0x94, CHR 0x94, CHR 0xE2, CHR 0x94, CHR 0x80, CHR 0xE2, CHR 0x94, CHR 0x80] @ '' favicon.ico\<newline>'' @
     [CHR 0xE2, CHR 0x94, CHR 0x82] @ ''   '' @ [CHR 0xE2, CHR 0x94, CHR 0x9C, CHR 0xE2, CHR 0x94, CHR 0x80, CHR 0xE2, CHR 0x94, CHR 0x80] @ '' src/\<newline>'' @
     [CHR 0xE2, CHR 0x94, CHR 0x82] @ ''   '' @ [CHR 0xE2, CHR 0x94, CHR 0x82] @ ''   '' @ [CHR 0xE2, CHR 0x94, CHR 0x9C, CHR 0xE2, CHR 0x94, CHR 0x80, CHR 0xE2, CHR 0x94, CHR 0x80] @ '' components/\<newline>'' @
     [CHR 0xE2, CHR 0x94, CHR 0x82] @ ''   '' @ [CHR 0xE2, CHR 0x94, CHR 0x82] @ ''   '' @ [CHR 0xE2, CHR 0x94, CHR 0x82] @ ''   '' @ [CHR 0xE2, CHR 0x94, CHR 0x9C, CHR 0xE2, CHR 0x94, CHR 0x80, CHR 0xE2, CHR 0x94, CHR 0x80] @ '' ComponentA.js\<newline>'' @
     [CHR 0xE2, CHR 0x94, CHR 0x82] @ ''   '' @ [CHR 0xE2, CHR 0x94, CHR 0x82] @ ''   '' @ [CHR 0xE2, CHR 0x94, CHR 0x82] @ ''   '' @ [CHR 0xE2, CHR 0x94, CHR 0x94, CHR 0xE2, CHR 0x94, CHR 0x80, CHR 0xE2, CHR 0x94, CHR 0x80] @ '' ComponentB.js\<newline>'' @
     [CHR 0xE2, CHR 0x94, CHR 0x82] @ ''   '' @ [CHR 0xE2, CHR 0x94, CHR 0x82] @ ''   '' @ [CHR 0xE2, CHR 0x94, CHR 0x9C, CHR 0xE2, CHR 0x94, CHR 0x80, CHR 0xE2, CHR 0x94, CHR 0x80] @ '' App.js\<newline>'' @
     [CHR 0xE2, CHR 0x94, CHR 0x82] @ ''   '' @ [CHR 0xE2, CHR 0x94, CHR 0x82] @ ''   '' @ [CHR 0xE2, CHR 0x94, CHR 0x94, CHR 0xE2, CHR 0x94, CHR 0x80, CHR 0xE2, CHR 0x94, CHR 0x80] @ '' index.js\<newline>'' @
     [CHR 0xE2, CHR 0x94, CHR 0x82] @ ''   '' @ [CHR 0xE2, CHR 0x94, CHR 0x94, CHR 0xE2, CHR 0x94, CHR 0x80, CHR 0xE2, CHR 0x94, CHR 0x80] @ '' package.json\<newline>'' @
     [CHR 0xE2, CHR 0x94, CHR 0x9C, CHR 0xE2, CHR 0x94, CHR 0x80, CHR 0xE2, CHR 0x94, CHR 0x80] @ '' backend/\<newline>'' @
     [CHR 0xE2, CHR 0x94, CHR 0x82] @ ''   '' @ [CHR 0xE2, CHR 0x94, CHR 0x9C, CHR 0xE2, CHR 0x94, CHR 0x80, CHR 0xE2, CHR 0x94, CHR 0x80] @ '' controllers/\<newline>'' @
     [CHR 0xE2, CHR 0x94, CHR 0x82] @ ''   '' @ [CHR 0xE2, CHR 0x94, CHR 0x82] @ ''   '' @ [CHR 0xE2, CHR 0x94, CHR 0x94, CHR 0xE2, CHR 0x94, CHR 0x80, CHR 0xE2, CHR 0x94, CHR 0x80] @ '' mainController.js\<newline>'' @
     [CHR 0xE2, CHR 0x94, CHR 0x82] @ ''   '' @ [CHR 0xE2, CHR 0x94, CHR 0x9C, CHR 0xE2, CHR 0x94, CHR 0x80, CHR 0xE2, CHR 0x94, CHR 0x80] @ '' routes/\<newline>'' @
     [CHR 0xE2, CHR 0x94, CHR 0x82] @ ''   '' @ [CHR 0xE2, CHR 0x94, CHR 0x82] @ ''   '' @ [CHR 0xE2, CHR 0x94, CHR 0x94, CHR 0xE2, CHR 0x94, CHR 0x80, CHR 0xE2, CHR 0x94, CHR 0x80] @ '' api.js\<newline>'' @
     [CHR 0xE2, CHR 0x94, CHR 0x82] @ ''   '' @ [CHR 0xE2, CHR 0x94, CHR 0x9C, CHR 0xE2, CHR 0x94, CHR 0x80, CHR 0xE2, CHR 0x94, CHR 0x80] @ '' models/\<newline>'' @
     [CHR 0xE2, CHR 0x94, CHR 0x82] @ ''   '' @ [CHR 0xE2, CHR 0x94, CHR 0x82] @ ''   '' @ [CHR 0xE2, CHR 0x94, CHR 0x94, CHR 0xE2, CHR 0x94, CHR 0x80, CHR 0xE2, CHR 0x94, CHR 0x80] @ '' dataModel.js\<newline>'' @
     [CHR 0xE2, CHR 0x94, CHR 0x82] @ ''   '' @ [CHR 0xE2, CHR 0x94, CHR 0x9C, CHR 0xE2, CHR 0x94, CHR 0x80, CHR 0xE2, CHR 0x94, CHR 0x80] @ '' server.js\<newline>'' @
     [CHR 0xE2, CHR 0x94, CHR 0x82] @ ''   '' @ [CHR 0xE2, CHR 0x94, CHR 0x94, CHR 0xE2, CHR 0x94, CHR 0x80, CHR 0xE2, CHR 0x94, CHR 0x80] @ '' package.json\<newline>'' @
     [CHR 0xE2, CHR 0x94, CHR 0x94, CHR 0xE2, CHR 0x94, CHR 0x80, CHR 0xE2, CHR 0x94, CHR 0x80] @ '' README.md\<newline>'' @
     ''```\<newline>'' @
     ''\<newline>'' @
     ''## Frontend (React)\<newline>'' @
     ''- Create actual component files with complete implementations\<newline>'' @
     ''- Use functional components with React Hooks\<newline>'' @
     ''- Implement state management appropriate to application complexity\<newline>'' @
     ''- Build clean component hierarchy with proper props passing\<newline>'' @
     ''- Apply responsive design principles\<newline>'' @
     ''\<newline>'' @
     ''## Backend (Node.js/Express)\<newline>'' @
     ''- Implement complete RESTful API endpoints\<newline>'' @
     ''- Create actual controller files with full implementations\<newline>'' @
     ''- Create complete route files with proper endpoints\<newline>'' @
     ''- Implement error handling middleware\<newline>'' @
     ''- Include request validation\<newline>'' @
     ''\<newline>'' @
     ''## Data Flow\<newline>'' @
     ''1. User interacts with React frontend\<newline>'' @
     ''2. Frontend makes API calls to backend services\<newline>'' @
     ''3. Backend processes requests and returns responses\<newline>'' @
     ''4. Frontend updates UI based on response data\<newline>'' @
     ''\<newline>'' @
     ''## Development Guidelines\<newline>'' @
     ''1. Write clean, self-explanatory code without comments\<newline>'' @
     ''2. Follow single responsibility principle for components\<newline>'' @
     ''3. Use descriptive variable and function names\<newline>'' @
     ''4. Only implement requested features - avoid feature creep\<newline>'' @
     ''5. Ensure proper error handling throughout the application\<newline>''\<close>

text \<open>\<^verbatim>\<open>NEW_REQ_TEMPLATE.format(old_design=..., context=...)\<close>\<close>

definition NEW_REQ_TEMPLATE_format :: "string \<Rightarrow> string \<Rightarrow> string" where
  \<open>NEW_REQ_TEMPLATE_format old_design context =
     ''\<newline>'' @
     ''### Legacy Content\<newline>'' @
     old_design @
     ''\<newline>'' @
     ''\<newline>'' @
     ''### New Requirements\<newline>'' @
     context @
     ''\<newline>''\<close>

section \<open>Values shared by the actions\<close>

text \<open>
  Python exceptions are values. \<open>RetryError\<close> is what tenacity raises once its stop
  condition holds; it wraps the exception of the last attempt. \<open>BackendError\<close> stands for
  any exception coming out of a collaborator (the language model, the document store).
\<close>

datatype error =
    AttributeError
  | TypeError
  | ValueError
  | JSONDecodeError
  | OSError
  | BackendError string
  | RetryError error

text \<open>
  What \<^verbatim>\<open>json.loads\<close> returns. An object is the list of its items in
  insertion order (the keys of a Python dict are distinct). Numbers are never inspected by
  the code below: only their being neither a dict nor iterable matters.
\<close>

datatype json =
    JNull
  | JBool bool
  | JNum int
  | JStr string
  | JArr "json list"
  | JObj "(string \<times> json) list"

text \<open>\<^verbatim>\<open>metagpt.schema.Document\<close>, with the fields the two actions read.\<close>

record document =
  root_path :: string
  filename :: string
  content :: string

text \<open>
  A \<^verbatim>\<open>FileRepository\<close> as the actions see it: the listing \<^verbatim>\<open>all_files\<close>
  and the lookup \<^verbatim>\<open>get\<close>, which returns \<^verbatim>\<open>None\<close> for a file that is not
  there. The two are independent fields, so nothing below relies on the listing and the
  lookup agreeing.
\<close>

record file_repo =
  all_files :: "string list"
  get :: "string \<Rightarrow> document option"

text \<open>
  The part of \<^verbatim>\<open>ProjectRepo\<close> that \<^verbatim>\<open>get_codes\<close> touches:
  \<^verbatim>\<open>project_repo.srcs\<close> and the repository that
  \<^verbatim>\<open>git_repo.new_file_repository(relative_path=project_repo.old_workspace)\<close> opens.
\<close>

record project_repo =
  srcs :: file_repo
  old_workspace :: file_repo

text \<open>
  What the Python runtime and the modules outside the two actions contribute:
  \<^verbatim>\<open>json.loads\<close> (\<open>None\<close> is \<^verbatim>\<open>JSONDecodeError\<close>), the order in which
  \<^verbatim>\<open>list(set(a) | set(b))\<close> enumerates the union (it depends on the hash seed of the
  process), and the keys \<^verbatim>\<open>TASK_LIST.key\<close> and \<^verbatim>\<open>REFINED_TASK_LIST.key\<close>.
\<close>

record env =
  json_loads :: "string \<Rightarrow> json option"
  list_of_union :: "string list \<Rightarrow> string list \<Rightarrow> string list"
  TASK_LIST_key :: string
  REFINED_TASK_LIST_key :: string

text \<open>\<^verbatim>\<open>m.get(key, default)\<close>: only a dict has the method.\<close>

fun dict_get :: "json \<Rightarrow> string \<Rightarrow> json \<Rightarrow> error + json" where
  "dict_get (JObj kvs) k d = Inr (case map_of kvs k of None \<Rightarrow> d | Some v \<Rightarrow> v)"
| "dict_get _ k d = Inl AttributeError"

text \<open>
  \<^verbatim>\<open>for filename in code_filenames\<close>: a list gives its elements, a string its
  characters, a dict its keys; \<^verbatim>\<open>None\<close>, a bool and a number are not iterable.
\<close>

fun py_iter :: "json \<Rightarrow> error + json list" where
  "py_iter (JArr xs) = Inr xs"
| "py_iter (JStr s) = Inr (map (\<lambda>c. JStr [c]) s)"
| "py_iter (JObj kvs) = Inr (map (\<lambda>kv. JStr (fst kv)) kvs)"
| "py_iter _ = Inl TypeError"

text \<open>\<^verbatim>\<open>"\n".join(codes)\<close>\<close>

fun join_newline :: "string list \<Rightarrow> string" where
  "join_newline [] = []"
| "join_newline [x] = x"
| "join_newline (x # y # ys) = x @ ''\<newline>'' @ join_newline (y # ys)"

section \<open>\<^verbatim>\<open>WriteCode.get_codes\<close>\<close>

text \<open>The two f-strings of \<^verbatim>\<open>get_codes\<close>.\<close>

definition code_block :: "string \<Rightarrow> string \<Rightarrow> string" where
  \<open>code_block fname c = ''----- '' @ fname @ ''\<newline>```'' @ c @ ''```''\<close>

definition rewritten_block :: "string \<Rightarrow> string \<Rightarrow> string" where
  \<open>rewritten_block fname c =
     ''-----Now, '' @ fname @ '' to be rewritten\<newline>```'' @ c @ ''```\<newline>=====''\<close>

text \<open>
  The loop of the normal scenario, \<open>codes\<close> being the list built so far. An element of
  the task list that is not a string never equals \<^verbatim>\<open>exclude\<close> and reaches
  \<^verbatim>\<open>src_file_repo.get\<close>, which joins it to a path: a \<^verbatim>\<open>TypeError\<close>.
\<close>

fun normal_loop :: "file_repo \<Rightarrow> string \<Rightarrow> json list \<Rightarrow> string list \<Rightarrow> error + string list" where
  "normal_loop src_file_repo exclude [] codes = Inr codes"
| "normal_loop src_file_repo exclude (JStr fname # rest) codes =
     (if fname = exclude then normal_loop src_file_repo exclude rest codes
      else (case get src_file_repo fname of
              None \<Rightarrow> normal_loop src_file_repo exclude rest codes
            | Some doc \<Rightarrow>
                normal_loop src_file_repo exclude rest (codes @ [code_block fname (content doc)])))"
| "normal_loop src_file_repo exclude (_ # rest) codes = Inl TypeError"

text \<open>
  The loop of the incremental scenario over \<^verbatim>\<open>union_files_list\<close>.
  \<^verbatim>\<open>codes.insert(0, x)\<close> puts \<open>x\<close> in front. When the old repository lists the
  excluded file but its \<^verbatim>\<open>get\<close> returns \<^verbatim>\<open>None\<close>, \<^verbatim>\<open>doc.content\<close>
  raises.
\<close>

fun inc_loop ::
  "file_repo \<Rightarrow> file_repo \<Rightarrow> string list \<Rightarrow> string \<Rightarrow> string list \<Rightarrow> string list
     \<Rightarrow> error + string list" where
  "inc_loop src_file_repo old_file_repo old_files exclude [] codes = Inr codes"
| "inc_loop src_file_repo old_file_repo old_files exclude (fname # rest) codes =
     (if fname = exclude then
        (if fname \<in> set old_files \<and> fname \<noteq> ''main.py'' then
           (case get old_file_repo fname of
              None \<Rightarrow> Inl AttributeError
            | Some doc \<Rightarrow>
                inc_loop src_file_repo old_file_repo old_files exclude rest
                  (rewritten_block fname (content doc) # codes))
         else inc_loop src_file_repo old_file_repo old_files exclude rest codes)
      else
        (case get src_file_repo fname of
           None \<Rightarrow> inc_loop src_file_repo old_file_repo old_files exclude rest codes
         | Some doc \<Rightarrow>
             inc_loop src_file_repo old_file_repo old_files exclude rest
               (codes @ [code_block fname (content doc)])))"

text \<open>
  The list \<^verbatim>\<open>codes\<close> at the end of \<^verbatim>\<open>get_codes\<close>, given the parsed task
  document \<open>m\<close>. The task list is read in both scenarios (so a task document that is not
  a dict raises in both), and iterated in the normal one only.
\<close>

definition codes_of :: "env \<Rightarrow> json \<Rightarrow> string \<Rightarrow> project_repo \<Rightarrow> bool \<Rightarrow> error + string list" where
  "codes_of e m exclude project_repo use_inc =
     (case dict_get m (if \<not> use_inc then TASK_LIST_key e else REFINED_TASK_LIST_key e) (JArr []) of
        Inl err \<Rightarrow> Inl err
      | Inr code_filenames \<Rightarrow>
          (let src_file_repo = srcs project_repo in
           if use_inc then
             (let src_files = all_files src_file_repo;
                  old_file_repo = old_workspace project_repo;
                  old_files = all_files old_file_repo;
                  union_files_list = list_of_union e src_files old_files
              in inc_loop src_file_repo old_file_repo old_files exclude union_files_list [])
           else
             (case py_iter code_filenames of
                Inl err \<Rightarrow> Inl err
              | Inr fnames \<Rightarrow> normal_loop src_file_repo exclude fnames [])))"

text \<open>
  \<^verbatim>\<open>get_codes\<close>. A task document with empty content is not treated like an absent
  one: line 306 re-reads it with \<^verbatim>\<open>project_repo.docs.task.get(...)\<close>. That call is
  not awaited (every other \<^verbatim>\<open>get\<close> of a file repository in the file is), so
  \<^verbatim>\<open>task_doc\<close> is a coroutine object and \<^verbatim>\<open>task_doc.content\<close> on the next
  line raises \<^verbatim>\<open>AttributeError\<close>.
\<close>

definition get_codes ::
  "env \<Rightarrow> document option \<Rightarrow> string \<Rightarrow> project_repo \<Rightarrow> bool \<Rightarrow> error + string" where
  "get_codes e task_doc exclude project_repo use_inc =
     (case task_doc of
        None \<Rightarrow> Inr []
      | Some td \<Rightarrow>
          if content td = [] then Inl AttributeError
          else
            (case json_loads e (content td) of
               None \<Rightarrow> Inl JSONDecodeError
             | Some m \<Rightarrow>
                 (case codes_of e m exclude project_repo use_inc of
                    Inl err \<Rightarrow> Inl err
                  | Inr codes \<Rightarrow> Inr (join_newline codes))))"

section \<open>Paths and the file system\<close>

text \<open>
  A \<^verbatim>\<open>pathlib.Path\<close> on a POSIX system is the tuple of its \<^verbatim>\<open>parts\<close>: an
  absolute path starts with the root (\<^verbatim>\<open>/\<close>, or \<^verbatim>\<open>//\<close> when the text has
  exactly two leading slashes), empty segments and \<^verbatim>\<open>.\<close> segments are dropped,
  \<^verbatim>\<open>..\<close> is kept as a segment.
\<close>

type_synonym path = "string list"

text \<open>\<^verbatim>\<open>s.split(c)\<close>\<close>

fun split_on :: "char \<Rightarrow> string \<Rightarrow> string list" where
  "split_on c [] = [[]]"
| "split_on c (x # xs) =
     (if x = c then [] # split_on c xs
      else (case split_on c xs of
              [] \<Rightarrow> [[x]]
            | w # ws \<Rightarrow> (x # w) # ws))"

text \<open>\<^verbatim>\<open>Path(s).parts\<close>\<close>

definition path_parts :: "string \<Rightarrow> path" where
  "path_parts s =
     (let root = (if take 1 s = ''/''
                  then (if take 2 s = ''//'' \<and> take 3 s \<noteq> ''///'' then [''//''] else [''/''])
                  else [])
      in root @ filter (\<lambda>seg. seg \<noteq> [] \<and> seg \<noteq> ''.'') (split_on CHR ''/'' s))"

definition is_absolute :: "path \<Rightarrow> bool" where
  "is_absolute p = (case p of [] \<Rightarrow> False | r # _ \<Rightarrow> r = ''/'' \<or> r = ''//'')"

text \<open>\<^verbatim>\<open>p / q\<close>: an absolute right operand replaces the left one.\<close>

definition path_join :: "path \<Rightarrow> path \<Rightarrow> path" where
  "path_join p q = (if is_absolute q then q else p @ q)"

text \<open>\<^verbatim>\<open>p.parent\<close>: the root and the empty path are their own parents.\<close>

definition path_parent :: "path \<Rightarrow> path" where
  "path_parent p = (if p = [] \<or> (is_absolute p \<and> length p = 1) then p else butlast p)"

fun join_slash :: "string list \<Rightarrow> string" where
  "join_slash [] = []"
| "join_slash [x] = x"
| "join_slash (x # y # ys) = x @ ''/'' @ join_slash (y # ys)"

text \<open>\<^verbatim>\<open>str(p)\<close>\<close>

definition path_str :: "path \<Rightarrow> string" where
  "path_str p =
     (if p = [] then ''.''
      else if is_absolute p then hd p @ join_slash (tl p)
      else join_slash p)"

text \<open>
  The disk: what stands at each path. The map of a real disk has a directory at every
  proper prefix of a path that holds something; the definitions below do not need that,
  and the properties hold for every map.
\<close>

datatype node = Dir | File string

type_synonym fsys = "path \<Rightarrow> node option"

text \<open>\<^verbatim>\<open>p.exists()\<close>, asked below of paths that end in a file name only.\<close>

definition path_exists :: "fsys \<Rightarrow> path \<Rightarrow> bool" where
  "path_exists fs p = (fs p \<noteq> None)"

text \<open>
  \<^verbatim>\<open>p.mkdir(parents=True, exist_ok=True)\<close>, with \<open>pre\<close> the prefix already walked:
  every missing prefix of \<open>p\<close> becomes a directory, an existing directory is left
  alone, and a regular file standing at a prefix of \<open>p\<close> or at \<open>p\<close> itself makes
  \<^verbatim>\<open>os.mkdir\<close> raise (\<^verbatim>\<open>NotADirectoryError\<close> or \<^verbatim>\<open>FileExistsError\<close>, both
  \<^verbatim>\<open>OSError\<close>). On a real disk all prefixes before such a file exist, so nothing has
  been created when the exception is raised.
\<close>

fun mkdirs :: "fsys \<Rightarrow> path \<Rightarrow> string list \<Rightarrow> error + fsys" where
  "mkdirs fs pre [] = Inr fs"
| "mkdirs fs pre (seg # segs) =
     (case fs (pre @ [seg]) of
        Some (File c) \<Rightarrow> Inl OSError
      | Some Dir \<Rightarrow> mkdirs fs (pre @ [seg]) segs
      | None \<Rightarrow> mkdirs (fs(pre @ [seg] \<mapsto> Dir)) (pre @ [seg]) segs)"

definition mkdir_parents :: "fsys \<Rightarrow> path \<Rightarrow> error + fsys" where
  "mkdir_parents fs p = mkdirs fs [] p"

section \<open>\<^verbatim>\<open>WriteCode\<close>\<close>

text \<open>\<^verbatim>\<open>metagpt.schema.CodingContext\<close> and \<^verbatim>\<open>RunCodeResult\<close>.\<close>

record coding_context =
  ctx_filename :: string
  design_doc :: "document option"
  task_doc :: "document option"
  code_doc :: "document option"
  code_plan_and_change_doc :: "document option"

record run_code_result =
  summary :: string
  stdout :: string
  stderr :: string

text \<open>The keyword arguments that \<^verbatim>\<open>run\<close> gives to \<^verbatim>\<open>REFINED_TEMPLATE.format\<close>.\<close>

record refined_kwargs =
  kw_user_requirement :: string
  kw_code_plan_and_change :: string
  kw_design :: string
  kw_task :: string
  kw_code :: string
  kw_logs :: string
  kw_feedback :: string
  kw_filename :: string
  kw_summary_log :: string

text \<open>
  What \<^verbatim>\<open>WriteCode\<close> takes from outside \<^verbatim>\<open>write_code.py\<close>:
  \<^item> \<open>aask n prompt\<close>: the outcome of the \<open>n\<close>-th call of \<^verbatim>\<open>self._aask\<close>
    (counted from 1), a text or an exception;
  \<^item> \<^verbatim>\<open>CodeParser.parse_code(block="", text=...)\<close>;
  \<^item> the property \<^verbatim>\<open>Document.root_relative_path\<close>;
  \<^item> \<^verbatim>\<open>project_repo.srcs.save(filename=..., dependencies=..., content=...)\<close> and
    \<^verbatim>\<open>open(full_path, 'w')\<close> followed by \<^verbatim>\<open>f.write(content)\<close>, each as the disk it
    leaves and the exception it raised, if any;
  \<^item> \<^verbatim>\<open>CodingContext.loads\<close>, \<^verbatim>\<open>RunCodeResult.loads\<close>, \<^verbatim>\<open>str\<close> of the
    optional document \<^verbatim>\<open>code_plan_and_change_doc\<close>;
  \<^item> \<^verbatim>\<open>REFINED_TEMPLATE.format\<close> and the constants \<^verbatim>\<open>BUGFIX_FILENAME\<close> and
    \<^verbatim>\<open>REQUIREMENT_FILENAME\<close>.
\<close>

record wc_env =
  aask :: "nat \<Rightarrow> string \<Rightarrow> error + string"
  parse_code :: "string \<Rightarrow> error + string"
  root_relative_path :: "document \<Rightarrow> string"
  srcs_save :: "fsys \<Rightarrow> string \<Rightarrow> string set \<Rightarrow> string \<Rightarrow> fsys \<times> error option"
  open_write :: "fsys \<Rightarrow> path \<Rightarrow> string \<Rightarrow> fsys \<times> error option"
  CodingContext_loads :: "string \<Rightarrow> error + coding_context"
  RunCodeResult_loads :: "string \<Rightarrow> error + run_code_result"
  str_of_doc :: "document option \<Rightarrow> string"
  REFINED_TEMPLATE_format :: "refined_kwargs \<Rightarrow> string"
  BUGFIX_FILENAME :: string
  REQUIREMENT_FILENAME :: string

subsection \<open>\<^verbatim>\<open>write_code\<close> under \<^verbatim>\<open>@retry\<close>\<close>

text \<open>
  The body of \<^verbatim>\<open>write_code\<close> at its \<open>n\<close>-th attempt. The scan for nested-directory
  patterns only logs and is left out.
\<close>

definition write_code_body :: "wc_env \<Rightarrow> string \<Rightarrow> nat \<Rightarrow> error + string" where
  "write_code_body w prompt n =
     (case aask w n prompt of
        Inl err \<Rightarrow> Inl err
      | Inr code_rsp \<Rightarrow> parse_code w code_rsp)"

text \<open>
  tenacity's \<^verbatim>\<open>retry(stop=stop_after_attempt(m))\<close> around a call, from attempt \<open>n\<close>
  on: a result is returned; after an exception the stop condition
  \<^verbatim>\<open>attempt_number >= m\<close> is checked, and \<^verbatim>\<open>RetryError\<close> is raised when it holds
  (\<^verbatim>\<open>reraise\<close> is off). The waits between attempts are not modelled.
\<close>

function retry_from :: "nat \<Rightarrow> (nat \<Rightarrow> error + 'a) \<Rightarrow> nat \<Rightarrow> error + 'a" where
  "retry_from m attempt n =
     (case attempt n of
        Inr v \<Rightarrow> Inr v
      | Inl err \<Rightarrow> if n \<ge> m then Inl (RetryError err) else retry_from m attempt (Suc n))"
  by pat_completeness auto
termination
  by (relation "measure (\<lambda>(m, attempt, n). m - n)") auto

definition write_code :: "wc_env \<Rightarrow> string \<Rightarrow> error + string" where
  "write_code w prompt = retry_from 6 (write_code_body w prompt) 1"

subsection \<open>\<^verbatim>\<open>ensure_critical_files\<close>\<close>

definition critical_files :: "(string \<times> string) list" where
  "critical_files = [(''package.json'', package_json_content)]"

text \<open>
  Lines 166 to 180: the condition of line 170, then the project directory and the disk
  after the two \<^verbatim>\<open>mkdir\<close> calls when the first part of the filename is taken for a
  project name.
\<close>

definition names_project :: "path \<Rightarrow> bool" where
  "names_project filename_parts =
     (length filename_parts > 0
      \<and> hd filename_parts \<notin> set [''frontend'', ''backend'', ''package.json''])"

definition project_dir_step :: "fsys \<Rightarrow> path \<Rightarrow> path \<Rightarrow> error + path \<times> fsys" where
  "project_dir_step fs workspace_path filename_parts =
     (if names_project filename_parts then
        (let project_name = hd filename_parts;
             project_dir = path_join workspace_path (path_parts project_name);
             frontend_dir = path_join project_dir (path_parts ''frontend'');
             backend_dir = path_join project_dir (path_parts ''backend'')
         in case mkdir_parents fs frontend_dir of
              Inl err \<Rightarrow> Inl err
            | Inr fs1 \<Rightarrow>
                (case mkdir_parents fs1 backend_dir of
                   Inl err \<Rightarrow> Inl err
                 | Inr fs2 \<Rightarrow> Inr (project_dir, fs2)))
      else Inr (workspace_path, fs))"

text \<open>
  The \<^verbatim>\<open>dependencies\<close> argument of the save: reading \<^verbatim>\<open>root_relative_path\<close> of
  an absent design or task document raises inside the \<^verbatim>\<open>try\<close>.
\<close>

definition save_dependencies :: "wc_env \<Rightarrow> coding_context \<Rightarrow> error + string set" where
  "save_dependencies w ctx =
     (case design_doc ctx of
        None \<Rightarrow> Inl AttributeError
      | Some dd \<Rightarrow>
          (case task_doc ctx of
             None \<Rightarrow> Inl AttributeError
           | Some td \<Rightarrow> Inr {root_relative_path w dd, root_relative_path w td}))"

text \<open>
  One round of the loop over \<^verbatim>\<open>critical_files.items()\<close>: the save through the
  repository, the direct write when the save raised, and nothing but a log entry when
  that raised too.
\<close>

definition ensure_file ::
  "wc_env \<Rightarrow> coding_context \<Rightarrow> path \<Rightarrow> string \<times> string \<Rightarrow> fsys \<times> string set
     \<Rightarrow> error + fsys \<times> string set" where
  "ensure_file w ctx project_dir item st =
     (let file_path = fst item; file_content = snd item; fs = fst st; added_files = snd st;
          full_path = path_join project_dir (path_parts file_path)
      in case mkdir_parents fs (path_parent full_path) of
           Inl err \<Rightarrow> Inl err
         | Inr fs1 \<Rightarrow>
             (let file_exists = path_exists fs1 full_path in
              if \<not> file_exists then
                (case (case save_dependencies w ctx of
                         Inl err \<Rightarrow> (fs1, Some err)
                       | Inr deps \<Rightarrow> srcs_save w fs1 (path_str full_path) deps file_content) of
                   (fs2, None) \<Rightarrow> Inr (fs2, insert (path_str full_path) added_files)
                 | (fs2, Some e) \<Rightarrow>
                     (case open_write w fs2 full_path file_content of
                        (fs3, None) \<Rightarrow> Inr (fs3, insert (path_str full_path) added_files)
                      | (fs3, Some e2) \<Rightarrow> Inr (fs3, added_files)))
              else Inr (fs1, added_files)))"

fun ensure_files ::
  "wc_env \<Rightarrow> coding_context \<Rightarrow> path \<Rightarrow> (string \<times> string) list \<Rightarrow> fsys \<times> string set
     \<Rightarrow> error + fsys \<times> string set" where
  "ensure_files w ctx project_dir [] st = Inr st"
| "ensure_files w ctx project_dir (item # items) st =
     (case ensure_file w ctx project_dir item st of
        Inl err \<Rightarrow> Inl err
      | Inr st1 \<Rightarrow> ensure_files w ctx project_dir items st1)"

text \<open>
  \<^verbatim>\<open>ensure_critical_files\<close>: the disk it leaves and the set \<^verbatim>\<open>added_files\<close>, or
  the exception of a \<^verbatim>\<open>mkdir\<close>, which nothing in the method catches.
\<close>

definition ensure_critical_files ::
  "wc_env \<Rightarrow> fsys \<Rightarrow> coding_context \<Rightarrow> error + fsys \<times> string set" where
  "ensure_critical_files w fs ctx =
     (case code_doc ctx of
        None \<Rightarrow> Inr (fs, {})
      | Some cd \<Rightarrow>
          if root_relative_path w cd = [] then Inr (fs, {})
          else
            (let workspace_path = path_parts (root_path cd);
                 filename_parts = path_parts (ctx_filename ctx)
             in case project_dir_step fs workspace_path filename_parts of
                  Inl err \<Rightarrow> Inl err
                | Inr (project_dir, fs1) \<Rightarrow>
                    ensure_files w ctx project_dir critical_files (fs1, {})))"

subsection \<open>\<^verbatim>\<open>run\<close>\<close>

text \<open>
  The action object as \<^verbatim>\<open>run\<close> reads it: \<^verbatim>\<open>self.i_context\<close>,
  \<^verbatim>\<open>self.config.inc\<close>, \<^verbatim>\<open>self.context.src_workspace\<close> as text (empty when it is
  not set), the lookups \<^verbatim>\<open>self.repo.docs.get\<close>, \<^verbatim>\<open>self.repo.test_outputs.get\<close>
  and \<^verbatim>\<open>self.repo.docs.code_summary.get\<close>, and the two repositories handed to
  \<^verbatim>\<open>get_codes\<close>: \<^verbatim>\<open>self.repo\<close> and
  \<^verbatim>\<open>self.repo.with_src_path(self.context.src_workspace)\<close>.
\<close>

record action =
  i_context :: document
  config_inc :: bool
  context_src_workspace :: string
  repo_docs :: "string \<Rightarrow> document option"
  repo_test_outputs :: "string \<Rightarrow> document option"
  repo_docs_code_summary :: "string \<Rightarrow> document option"
  self_repo :: project_repo
  self_repo_with_src_path :: project_repo

text \<open>\<^verbatim>\<open>doc.content if doc else ""\<close>\<close>

definition content_or_empty :: "document option \<Rightarrow> string" where
  "content_or_empty doc = (case doc of None \<Rightarrow> [] | Some d \<Rightarrow> content d)"

text \<open>
  Lines 231 to 242: with a bug-fix document the context is the content of the code
  document (an absent code document raises on \<^verbatim>\<open>.content\<close>); otherwise it is
  assembled by \<^verbatim>\<open>get_codes\<close>.
\<close>

definition code_context_step ::
  "env \<Rightarrow> action \<Rightarrow> document option \<Rightarrow> coding_context \<Rightarrow> error + string" where
  "code_context_step e self bug_feedback coding_context =
     (case bug_feedback of
        Some bf \<Rightarrow>
          (case code_doc coding_context of
             None \<Rightarrow> Inl AttributeError
           | Some cd \<Rightarrow> Inr (content cd))
      | None \<Rightarrow>
          if config_inc self then
            get_codes e (task_doc coding_context) (filename (i_context self)) (self_repo self) True
          else
            get_codes e (task_doc coding_context) (filename (i_context self))
              (self_repo_with_src_path self) False)"

text \<open>Lines 244 to 265: the prompt.\<close>

definition format_prompt ::
  "wc_env \<Rightarrow> action \<Rightarrow> document option \<Rightarrow> document option \<Rightarrow> document option
     \<Rightarrow> coding_context \<Rightarrow> string \<Rightarrow> string \<Rightarrow> string" where
  "format_prompt w self bug_feedback requirement_doc summary_doc coding_context code_context test_logs =
     (if config_inc self then
        REFINED_TEMPLATE_format w
          \<lparr>kw_user_requirement = content_or_empty requirement_doc,
           kw_code_plan_and_change = str_of_doc w (code_plan_and_change_doc coding_context),
           kw_design = content_or_empty (design_doc coding_context),
           kw_task = content_or_empty (task_doc coding_context),
           kw_code = code_context,
           kw_logs = test_logs,
           kw_feedback = content_or_empty bug_feedback,
           kw_filename = filename (i_context self),
           kw_summary_log = content_or_empty summary_doc\<rparr>
      else
        PROMPT_TEMPLATE_format
          (content_or_empty (design_doc coding_context))
          (content_or_empty (task_doc coding_context))
          code_context
          test_logs
          (content_or_empty bug_feedback)
          (filename (i_context self)))"

text \<open>Lines 223 to 225: the code summary is looked up under the filename of the design document.\<close>

definition summary_doc_of :: "action \<Rightarrow> coding_context \<Rightarrow> document option" where
  "summary_doc_of self coding_context =
     (case design_doc coding_context of
        None \<Rightarrow> None
      | Some dd \<Rightarrow>
          if filename dd \<noteq> [] then repo_docs_code_summary self (filename dd) else None)"

text \<open>Lines 226 to 229: the debug logs are the \<^verbatim>\<open>stderr\<close> of the stored test result.\<close>

definition test_logs_step :: "wc_env \<Rightarrow> document option \<Rightarrow> error + string" where
  "test_logs_step w test_doc =
     (case test_doc of
        None \<Rightarrow> Inr []
      | Some td \<Rightarrow>
          (case RunCodeResult_loads w (content td) of
             Inl err \<Rightarrow> Inl err
           | Inr test_detail \<Rightarrow> Inr (stderr test_detail)))"

text \<open>
  Lines 219 to 265: the coding context loaded from \<^verbatim>\<open>self.i_context\<close> and the
  prompt, or the exception raised on the way.
\<close>

definition prompt_step :: "env \<Rightarrow> wc_env \<Rightarrow> action \<Rightarrow> error + coding_context \<times> string" where
  "prompt_step e w self =
     (let bug_feedback = repo_docs self (BUGFIX_FILENAME w) in
      case CodingContext_loads w (content (i_context self)) of
        Inl err \<Rightarrow> Inl err
      | Inr coding_context \<Rightarrow>
          (let test_doc = repo_test_outputs self (''test_'' @ ctx_filename coding_context @ ''.json'');
               requirement_doc = repo_docs self (REQUIREMENT_FILENAME w);
               summary_doc = summary_doc_of self coding_context
           in case test_logs_step w test_doc of
                Inl err \<Rightarrow> Inl err
              | Inr test_logs \<Rightarrow>
                  (case code_context_step e self bug_feedback coding_context of
                     Inl err \<Rightarrow> Inl err
                   | Inr code_context \<Rightarrow>
                       Inr (coding_context,
                            format_prompt w self bug_feedback requirement_doc summary_doc
                              coding_context code_context test_logs))))"

text \<open>
  Lines 267 to 279: the \<^verbatim>\<open>try\<close> around \<^verbatim>\<open>write_code\<close> turns any exception into
  the empty code; the code becomes the content of the code document, which is created
  when the coding context has none.
\<close>

definition generated_code :: "wc_env \<Rightarrow> string \<Rightarrow> string" where
  "generated_code w prompt = (case write_code w prompt of Inr c \<Rightarrow> c | Inl err \<Rightarrow> [])"

definition store_code :: "action \<Rightarrow> coding_context \<Rightarrow> string \<Rightarrow> coding_context" where
  "store_code self coding_context c =
     (let cd = (case code_doc coding_context of
                  Some d \<Rightarrow> d
                | None \<Rightarrow>
                    \<lparr>root_path = context_src_workspace self,
                     filename = ctx_filename coding_context,
                     content = []\<rparr>)
      in coding_context\<lparr>code_doc := Some (cd\<lparr>content := c\<rparr>)\<rparr>)"

text \<open>
  \<^verbatim>\<open>run\<close>: the coding context it returns and the disk it leaves, or the exception
  that leaves it.
\<close>

definition run :: "env \<Rightarrow> wc_env \<Rightarrow> action \<Rightarrow> fsys \<Rightarrow> error + coding_context \<times> fsys" where
  "run e w self fs =
     (case prompt_step e w self of
        Inl err \<Rightarrow> Inl err
      | Inr (coding_context, prompt) \<Rightarrow>
          (let coding_context' = store_code self coding_context (generated_code w prompt) in
           case ensure_critical_files w fs coding_context' of
             Inl err \<Rightarrow> Inl err
           | Inr (fs', added_files) \<Rightarrow> Inr (coding_context', fs')))"

section \<open>\<^verbatim>\<open>WriteDesign\<close>\<close>

subsection \<open>The document store\<close>

text \<open>
  Modelled from the spec: the class \<^verbatim>\<open>FileRepository\<close> behind
  \<^verbatim>\<open>self.repo.docs.prd\<close> and \<^verbatim>\<open>self.repo.docs.system_design\<close> is not among the
  sources. Section 6 gives its contract: \<^verbatim>\<open>get(filename)\<close> returns the document or
  nothing, \<^verbatim>\<open>save(filename, content, dependencies)\<close> returns the document it stored,
  \<^verbatim>\<open>changed_files\<close> is a mapping whose keys are filenames. The store keeps, for each
  filename, the document and the dependencies recorded by the last save.
\<close>

record doc_store =
  store_root :: string
  workdir :: path
  store_docs :: "string \<Rightarrow> document option"
  store_deps :: "string \<Rightarrow> string set option"
  changed_files :: "string list"

definition store_save :: "doc_store \<Rightarrow> string \<Rightarrow> string \<Rightarrow> string set \<Rightarrow> doc_store \<times> document" where
  "store_save st fname c deps =
     (let doc = \<lparr>root_path = store_root st, filename = fname, content = c\<rparr>
      in (st\<lparr>store_docs := (store_docs st)(fname \<mapsto> doc),
              store_deps := (store_deps st)(fname \<mapsto> deps)\<rparr>, doc))"

text \<open>\<^verbatim>\<open>save_doc(doc, dependencies)\<close> stores the document under its own filename.\<close>

definition store_save_doc :: "doc_store \<Rightarrow> document \<Rightarrow> string set \<Rightarrow> doc_store" where
  "store_save_doc st doc deps =
     st\<lparr>store_docs := (store_docs st)(filename doc \<mapsto> doc),
        store_deps := (store_deps st)(filename doc \<mapsto> deps)\<rparr>"

subsection \<open>State and collaborators\<close>

datatype action_node = DESIGN_API_NODE | REFINED_DESIGN_NODE

text \<open>
  What the action changes: the two stores, and three logs of calls to collaborators, in
  the order of the calls: the contexts given to \<^verbatim>\<open>fill\<close>, the diagrams given to
  \<^verbatim>\<open>_save_mermaid_file\<close>, the documents given to \<^verbatim>\<open>save_pdf\<close>.
\<close>

record design_state =
  prd :: doc_store
  system_design :: doc_store
  llm_calls :: "(action_node \<times> string) list"
  mermaid_calls :: "(json \<times> path) list"
  pdf_calls :: "document list"

text \<open>
  What \<^verbatim>\<open>WriteDesign\<close> takes from outside \<^verbatim>\<open>design_api.py\<close>:
  \<^item> \<open>fill node context n\<close>: the outcome of \<^verbatim>\<open>node.fill(context=..., llm=...)\<close> when
    \<open>n\<close> calls were made before, the \<^verbatim>\<open>instruct_content\<close> or an exception;
  \<^item> \<^verbatim>\<open>instruct_content.model_dump_json()\<close> and \<^verbatim>\<open>json.loads\<close>;
  \<^item> the keys of the four action nodes, the two directory names, \<^verbatim>\<open>self.repo.workdir\<close>
    and the property \<^verbatim>\<open>Document.root_relative_path\<close>;
  \<^item> the exception, if any, of \<^verbatim>\<open>_save_mermaid_file\<close> (its \<^verbatim>\<open>mkdir\<close> and
    \<^verbatim>\<open>mermaid_to_file\<close>) and of \<^verbatim>\<open>save_pdf\<close>.
\<close>

record design_env =
  fill :: "action_node \<Rightarrow> string \<Rightarrow> nat \<Rightarrow> error + json"
  model_dump_json :: "json \<Rightarrow> string"
  design_json_loads :: "string \<Rightarrow> json option"
  DATA_STRUCTURES_AND_INTERFACES_key :: string
  REFINED_DATA_STRUCTURES_AND_INTERFACES_key :: string
  PROGRAM_CALL_FLOW_key :: string
  REFINED_PROGRAM_CALL_FLOW_key :: string
  DATA_API_DESIGN_FILE_REPO :: string
  SEQ_FLOW_FILE_REPO :: string
  repo_workdir :: path
  doc_root_relative_path :: "document \<Rightarrow> string"
  mermaid_error :: "json \<Rightarrow> path \<Rightarrow> error option"
  pdf_error :: "document \<Rightarrow> error option"

subsection \<open>The two extraction steps\<close>

text \<open>The truth value of a parsed JSON value in \<^verbatim>\<open>a or b\<close> and \<^verbatim>\<open>if not a\<close>.\<close>

fun truthy :: "json \<Rightarrow> bool" where
  "truthy JNull = False"
| "truthy (JBool b) = b"
| "truthy (JNum n) = (n \<noteq> 0)"
| "truthy (JStr s) = (s \<noteq> [])"
| "truthy (JArr xs) = (xs \<noteq> [])"
| "truthy (JObj kvs) = (kvs \<noteq> [])"

text \<open>\<^verbatim>\<open>m.get(k1) or m.get(k2)\<close>\<close>

definition get_or_get :: "json \<Rightarrow> string \<Rightarrow> string \<Rightarrow> error + json" where
  "get_or_get m k1 k2 =
     (case dict_get m k1 JNull of
        Inl err \<Rightarrow> Inl err
      | Inr a \<Rightarrow> if truthy a then Inr a else dict_get m k2 JNull)"

text \<open>\<^verbatim>\<open>name.rfind(c)\<close>, \<^verbatim>\<open>Path.suffix\<close> and \<^verbatim>\<open>Path(...).with_suffix("")\<close>.\<close>

fun rfind :: "char \<Rightarrow> string \<Rightarrow> nat option" where
  "rfind c [] = None"
| "rfind c (x # xs) =
     (case rfind c xs of
        Some i \<Rightarrow> Some (Suc i)
      | None \<Rightarrow> if x = c then Some 0 else None)"

definition path_name :: "path \<Rightarrow> string" where
  "path_name p = (if p = [] \<or> (is_absolute p \<and> length p = 1) then [] else last p)"

definition path_suffix :: "path \<Rightarrow> string" where
  "path_suffix p =
     (let name = path_name p in
      case rfind CHR ''.'' name of
        None \<Rightarrow> []
      | Some i \<Rightarrow> if 0 < i \<and> i < length name - 1 then drop i name else [])"

definition with_suffix_empty :: "path \<Rightarrow> error + path" where
  "with_suffix_empty p =
     (let name = path_name p in
      if name = [] then Inl ValueError
      else
        (let old_suffix = path_suffix p in
         Inr (butlast p @ [take (length name - length old_suffix) name])))"

text \<open>
  \<^verbatim>\<open>_save_mermaid_file\<close>: the call is logged, and its exception, if any, leaves the
  method.
\<close>

definition save_mermaid_file ::
  "design_env \<Rightarrow> design_state \<Rightarrow> json \<Rightarrow> path \<Rightarrow> design_state \<times> (error + unit)" where
  "save_mermaid_file dv st data pathname =
     (st\<lparr>mermaid_calls := mermaid_calls st @ [(data, pathname)]\<rparr>,
      case mermaid_error dv data pathname of None \<Rightarrow> Inr () | Some err \<Rightarrow> Inl err)"

text \<open>
  The common shape of \<^verbatim>\<open>_save_data_api_design\<close> and \<^verbatim>\<open>_save_seq_flow\<close>: parse the
  content of the design document, look the diagram up under the first key and then
  under the second, return when there is none, otherwise render it at the path made of
  the work directory, the directory of the kind of diagram and the filename without
  its suffix. Nothing catches the exception of \<^verbatim>\<open>json.loads\<close>.
\<close>

definition save_diagram ::
  "design_env \<Rightarrow> string \<Rightarrow> string \<Rightarrow> string \<Rightarrow> design_state \<Rightarrow> document
     \<Rightarrow> design_state \<times> (error + unit)" where
  "save_diagram dv k1 k2 dir_name st sd_doc =
     (case design_json_loads dv (content sd_doc) of
        None \<Rightarrow> (st, Inl JSONDecodeError)
      | Some m \<Rightarrow>
          (case get_or_get m k1 k2 of
             Inl err \<Rightarrow> (st, Inl err)
           | Inr data \<Rightarrow>
               if \<not> truthy data then (st, Inr ())
               else
                 (case with_suffix_empty (path_parts (filename sd_doc)) of
                    Inl err \<Rightarrow> (st, Inl err)
                  | Inr stem \<Rightarrow>
                      save_mermaid_file dv st data
                        (path_join (path_join (repo_workdir dv) (path_parts dir_name)) stem))))"

definition save_data_api_design ::
  "design_env \<Rightarrow> design_state \<Rightarrow> document \<Rightarrow> design_state \<times> (error + unit)" where
  "save_data_api_design dv st sd_doc =
     save_diagram dv (DATA_STRUCTURES_AND_INTERFACES_key dv)
       (REFINED_DATA_STRUCTURES_AND_INTERFACES_key dv) (DATA_API_DESIGN_FILE_REPO dv) st sd_doc"

definition save_seq_flow ::
  "design_env \<Rightarrow> design_state \<Rightarrow> document \<Rightarrow> design_state \<times> (error + unit)" where
  "save_seq_flow dv st sd_doc =
     save_diagram dv (PROGRAM_CALL_FLOW_key dv) (REFINED_PROGRAM_CALL_FLOW_key dv)
       (SEQ_FLOW_FILE_REPO dv) st sd_doc"

definition save_pdf :: "design_env \<Rightarrow> design_state \<Rightarrow> document \<Rightarrow> design_state \<times> (error + unit)" where
  "save_pdf dv st doc =
     (st\<lparr>pdf_calls := pdf_calls st @ [doc]\<rparr>,
      case pdf_error dv doc of None \<Rightarrow> Inr () | Some err \<Rightarrow> Inl err)"

text \<open>Lines 158 to 161 of \<^verbatim>\<open>_update_system_design\<close>.\<close>

definition after_save :: "design_env \<Rightarrow> design_state \<Rightarrow> document \<Rightarrow> design_state \<times> (error + document)" where
  "after_save dv st doc =
     (case save_data_api_design dv st doc of
        (st1, Inl err) \<Rightarrow> (st1, Inl err)
      | (st1, Inr u1) \<Rightarrow>
          (case save_seq_flow dv st1 doc of
             (st2, Inl err) \<Rightarrow> (st2, Inl err)
           | (st2, Inr u2) \<Rightarrow>
               (case save_pdf dv st2 doc of
                  (st3, Inl err) \<Rightarrow> (st3, Inl err)
                | (st3, Inr u3) \<Rightarrow> (st3, Inr doc))))"

subsection \<open>\<^verbatim>\<open>_update_system_design\<close> and \<^verbatim>\<open>run\<close>\<close>

text \<open>A call of \<^verbatim>\<open>fill\<close>: logged, then its outcome.\<close>

definition call_fill ::
  "design_env \<Rightarrow> design_state \<Rightarrow> action_node \<Rightarrow> string \<Rightarrow> design_state \<times> (error + json)" where
  "call_fill dv st node context =
     (st\<lparr>llm_calls := llm_calls st @ [(node, context)]\<rparr>,
      fill dv node context (length (llm_calls st)))"

text \<open>
  \<^verbatim>\<open>_update_system_design\<close>. Without a design document: \<^verbatim>\<open>_new_system_design\<close> on
  the content of the requirement document, and the save of the serialized result. With
  one: \<^verbatim>\<open>_merge\<close>, and \<^verbatim>\<open>save_doc\<close>. A missing requirement document raises on
  \<^verbatim>\<open>prd.content\<close> in both branches, before the backend is called.
\<close>

definition update_system_design ::
  "design_env \<Rightarrow> design_state \<Rightarrow> string \<Rightarrow> design_state \<times> (error + document)" where
  "update_system_design dv st fname =
     (let prd_doc = store_docs (prd st) fname;
          old_system_design_doc = store_docs (system_design st) fname
      in case old_system_design_doc of
           None \<Rightarrow>
             (case prd_doc of
                None \<Rightarrow> (st, Inl AttributeError)
              | Some p \<Rightarrow>
                  (case call_fill dv st DESIGN_API_NODE (content p) of
                     (st1, Inl err) \<Rightarrow> (st1, Inl err)
                   | (st1, Inr instruct_content) \<Rightarrow>
                       (let saved = store_save (system_design st1) fname
                                      (model_dump_json dv instruct_content)
                                      {doc_root_relative_path dv p}
                        in after_save dv (st1\<lparr>system_design := fst saved\<rparr>) (snd saved))))
         | Some old_doc \<Rightarrow>
             (case prd_doc of
                None \<Rightarrow> (st, Inl AttributeError)
              | Some p \<Rightarrow>
                  (case call_fill dv st REFINED_DESIGN_NODE
                          (NEW_REQ_TEMPLATE_format (content old_doc) (content p)) of
                     (st1, Inl err) \<Rightarrow> (st1, Inl err)
                   | (st1, Inr instruct_content) \<Rightarrow>
                       (let doc = old_doc\<lparr>content := model_dump_json dv instruct_content\<rparr>
                        in after_save dv
                             (st1\<lparr>system_design :=
                                    store_save_doc (system_design st1) doc
                                      {doc_root_relative_path dv p}\<rparr>)
                             doc))))"

text \<open>\<^verbatim>\<open>changed_files.docs[filename] = doc\<close> on a dict kept as the list of its items.\<close>

fun dict_set :: "string \<Rightarrow> 'v \<Rightarrow> (string \<times> 'v) list \<Rightarrow> (string \<times> 'v) list" where
  "dict_set k v [] = [(k, v)]"
| "dict_set k v ((k', v') # kvs) =
     (if k = k' then (k, v) # kvs else (k', v') # dict_set k v kvs)"

text \<open>
  The first loop of \<^verbatim>\<open>run\<close>, over the changed requirement documents: each gets the
  fixed template as its design document, saved with the path of the requirement
  document as its dependency. The backend is not called.
\<close>

fun prd_loop ::
  "design_state \<Rightarrow> string list \<Rightarrow> (string \<times> document) list
     \<Rightarrow> design_state \<times> (string \<times> document) list" where
  "prd_loop st [] changed_docs = (st, changed_docs)"
| "prd_loop st (fname # rest) changed_docs =
     (let doc = \<lparr>root_path = [], filename = fname, content = REACT_NODE_TEMPLATE\<rparr>;
          saved = store_save (system_design st) fname REACT_NODE_TEMPLATE
                    {path_str (path_join (workdir (prd st)) (path_parts fname))}
      in prd_loop (st\<lparr>system_design := fst saved\<rparr>) rest (dict_set fname doc changed_docs))"

text \<open>
  The second loop, over the changed design documents that the first loop did not
  handle.
\<close>

fun design_loop ::
  "design_env \<Rightarrow> design_state \<Rightarrow> string list \<Rightarrow> (string \<times> document) list
     \<Rightarrow> design_state \<times> (error + (string \<times> document) list)" where
  "design_loop dv st [] changed_docs = (st, Inr changed_docs)"
| "design_loop dv st (fname # rest) changed_docs =
     (if fname \<in> fst ` set changed_docs then design_loop dv st rest changed_docs
      else
        (case update_system_design dv st fname of
           (st1, Inl err) \<Rightarrow> (st1, Inl err)
         | (st1, Inr doc) \<Rightarrow> design_loop dv st1 rest (dict_set fname doc changed_docs)))"

text \<open>
  \<^verbatim>\<open>WriteDesign.run\<close>: the state it leaves and the documents of
  \<^verbatim>\<open>changed_files\<close>, or the exception. Both lists of changed files are read before
  the first save.
\<close>

definition design_run ::
  "design_env \<Rightarrow> design_state \<Rightarrow> design_state \<times> (error + (string \<times> document) list)" where
  "design_run dv st =
     (let changed_prds = changed_files (prd st);
          changed_system_designs = changed_files (system_design st);
          first = prd_loop st changed_prds []
      in design_loop dv (fst first) changed_system_designs (snd first))"

section \<open>Notions used to state the properties\<close>

text \<open>The value of \<^verbatim>\<open>project_dir\<close> when the loop over the critical files starts.\<close>

definition project_dir_of :: "path \<Rightarrow> path \<Rightarrow> path" where
  "project_dir_of workspace_path filename_parts =
     (if names_project filename_parts
      then path_join workspace_path (path_parts (hd filename_parts))
      else workspace_path)"

text \<open>
  A regular file stands at the path or at one of its prefixes: the case in which
  \<^verbatim>\<open>mkdir(parents=True, exist_ok=True)\<close> raises.
\<close>

definition is_file :: "node option \<Rightarrow> bool" where
  "is_file x = (case x of Some (File c) \<Rightarrow> True | _ \<Rightarrow> False)"

definition file_in_the_way :: "fsys \<Rightarrow> path \<Rightarrow> bool" where
  "file_in_the_way fs p = (\<exists>k\<in>{1..length p}. is_file (fs (take k p)))"

text \<open>
  The second disk is the first one with some directories added: nothing that existed was
  changed, and no file was created.
\<close>

definition only_new_dirs :: "fsys \<Rightarrow> fsys \<Rightarrow> bool" where
  "only_new_dirs fs fs' = (\<forall>q. fs' q = fs q \<or> (fs q = None \<and> fs' q = Some Dir))"

section \<open>Concrete inputs\<close>

text \<open>A small environment and small repositories on which the properties below are run.\<close>

definition demo_loads :: "string \<Rightarrow> json option" where
  \<open>demo_loads s =
     (if s = ''{"Task list": ["c.js", "b.js", "d.js", "a.js"]}''
      then Some (JObj [(''Task list'', JArr [JStr ''c.js'', JStr ''b.js'', JStr ''d.js'', JStr ''a.js''])])
      else if s = ''{}'' then Some (JObj [])
      else None)\<close>

definition demo_union :: "string list \<Rightarrow> string list \<Rightarrow> string list" where
  "demo_union a b = remdups (a @ b)"

definition demo_env :: env where
  "demo_env = \<lparr>json_loads = demo_loads, list_of_union = demo_union,
     TASK_LIST_key = ''Task list'', REFINED_TASK_LIST_key = ''Refined Task list''\<rparr>"

definition demo_doc :: "string \<Rightarrow> string \<Rightarrow> document" where
  "demo_doc n c = \<lparr>root_path = ''ws'', filename = n, content = c\<rparr>"

definition demo_srcs :: file_repo where
  "demo_srcs = \<lparr>all_files = [''a.js'', ''b.js''],
     get = [''a.js'' \<mapsto> demo_doc ''a.js'' ''new a'', ''b.js'' \<mapsto> demo_doc ''b.js'' ''new b'']\<rparr>"

definition demo_old :: file_repo where
  "demo_old = \<lparr>all_files = [''b.js'', ''c.js''],
     get = [''b.js'' \<mapsto> demo_doc ''b.js'' ''old b'', ''c.js'' \<mapsto> demo_doc ''c.js'' ''old c'']\<rparr>"

definition demo_repo :: project_repo where
  "demo_repo = \<lparr>srcs = demo_srcs, old_workspace = demo_old\<rparr>"

definition demo_srcs3 :: file_repo where
  "demo_srcs3 = \<lparr>all_files = [''a.js'', ''b.js'', ''d.js''],
     get = [''a.js'' \<mapsto> demo_doc ''a.js'' ''new a'', ''b.js'' \<mapsto> demo_doc ''b.js'' ''new b'',
            ''d.js'' \<mapsto> demo_doc ''d.js'' ''new d'']\<rparr>"

definition demo_task_doc :: document where
  \<open>demo_task_doc = demo_doc ''t.json'' ''{"Task list": ["c.js", "b.js", "d.js", "a.js"]}''\<close>

text \<open>
  A coding context for \<^verbatim>\<open>myapp/backend/server.js\<close> in the workspace \<^verbatim>\<open>ws\<close>, and
  one for \<^verbatim>\<open>package.json\<close>.
\<close>

definition demo_ctx :: coding_context where
  "demo_ctx =
     \<lparr>ctx_filename = ''myapp/backend/server.js'',
      design_doc = Some (demo_doc ''d.json'' ''the design''),
      task_doc = Some (demo_doc ''t.json'' ''{}''),
      code_doc = Some (demo_doc ''myapp/backend/server.js'' ''old code''),
      code_plan_and_change_doc = None\<rparr>"

definition demo_ctx_manifest :: coding_context where
  "demo_ctx_manifest =
     demo_ctx\<lparr>ctx_filename := ''package.json'',
              code_doc := Some (demo_doc ''package.json'' [])\<rparr>"

text \<open>
  A backend that fails five times and then answers, a repository whose save writes the
  file at the path it is given, and a direct write that does the same.
\<close>

definition demo_aask :: "nat \<Rightarrow> string \<Rightarrow> error + string" where
  "demo_aask n prompt = (if n < 6 then Inl (BackendError ''overloaded'') else Inr ''print(1)'')"

definition demo_aask_down :: "nat \<Rightarrow> string \<Rightarrow> error + string" where
  "demo_aask_down n prompt = Inl (BackendError ''overloaded'')"

definition demo_save :: "fsys \<Rightarrow> string \<Rightarrow> string set \<Rightarrow> string \<Rightarrow> fsys \<times> error option" where
  "demo_save fs name deps c = (fs(path_parts name \<mapsto> File c), None)"

definition demo_open_write :: "fsys \<Rightarrow> path \<Rightarrow> string \<Rightarrow> fsys \<times> error option" where
  "demo_open_write fs p c = (fs(p \<mapsto> File c), None)"

definition demo_ctx_loads :: "string \<Rightarrow> error + coding_context" where
  "demo_ctx_loads s = (if s = ''ctx'' then Inr demo_ctx else Inl JSONDecodeError)"

definition demo_result_loads :: "string \<Rightarrow> error + run_code_result" where
  "demo_result_loads s = Inl JSONDecodeError"

definition demo_root_relative_path :: "document \<Rightarrow> string" where
  "demo_root_relative_path d = root_path d @ ''/'' @ filename d"

definition demo_str_of_doc :: "document option \<Rightarrow> string" where
  "demo_str_of_doc d = (case d of None \<Rightarrow> ''None'' | Some x \<Rightarrow> content x)"

definition demo_refined_format :: "refined_kwargs \<Rightarrow> string" where
  "demo_refined_format kw = kw_filename kw @ '': '' @ kw_code kw"

definition demo_wc_env :: wc_env where
  "demo_wc_env =
     \<lparr>aask = demo_aask, parse_code = Inr, root_relative_path = demo_root_relative_path,
      srcs_save = demo_save, open_write = demo_open_write,
      CodingContext_loads = demo_ctx_loads, RunCodeResult_loads = demo_result_loads,
      str_of_doc = demo_str_of_doc, REFINED_TEMPLATE_format = demo_refined_format,
      BUGFIX_FILENAME = ''bugfix.txt'', REQUIREMENT_FILENAME = ''requirement.txt''\<rparr>"

definition demo_wc_env_down :: wc_env where
  "demo_wc_env_down = demo_wc_env\<lparr>aask := demo_aask_down\<rparr>"

text \<open>The action without and with a bug-fix document in the docs repository.\<close>

definition demo_action :: action where
  "demo_action =
     \<lparr>i_context = demo_doc ''myapp/backend/server.js'' ''ctx'',
      config_inc = False,
      context_src_workspace = ''ws'',
      repo_docs = Map.empty,
      repo_test_outputs = Map.empty,
      repo_docs_code_summary = Map.empty,
      self_repo = demo_repo,
      self_repo_with_src_path = demo_repo\<rparr>"

definition demo_action_bugfix :: action where
  "demo_action_bugfix =
     demo_action\<lparr>repo_docs := [''bugfix.txt'' \<mapsto> demo_doc ''bugfix.txt'' ''fix the crash'']\<rparr>"

text \<open>An environment in which no task document parses.\<close>

definition demo_env_no_json :: env where
  "demo_env_no_json = demo_env\<lparr>json_loads := Map.empty\<rparr>"

text \<open>The prompt of the action without a bug-fix document.\<close>

definition demo_prompt :: string where
  "demo_prompt =
     PROMPT_TEMPLATE_format ''the design'' ''{}'' [] [] [] ''myapp/backend/server.js''"

text \<open>The disk that the first call of \<^verbatim>\<open>ensure_critical_files\<close> leaves from an empty one.\<close>

definition demo_disk :: fsys where
  "demo_disk =
     [[''ws''] \<mapsto> Dir,
      [''ws'', ''myapp''] \<mapsto> Dir,
      [''ws'', ''myapp'', ''frontend''] \<mapsto> Dir,
      [''ws'', ''myapp'', ''backend''] \<mapsto> Dir,
      [''ws'', ''myapp'', ''package.json''] \<mapsto> File package_json_content]"

text \<open>
  A requirement store with the changed document \<^verbatim>\<open>a.md\<close>, an empty design store, a
  backend that answers with one field, and a serializer whose output the parser of the
  environment above reads.
\<close>

definition demo_prd_store :: doc_store where
  "demo_prd_store =
     \<lparr>store_root = ''docs/prd'', workdir = [''ws'', ''docs'', ''prd''],
      store_docs = [''a.md'' \<mapsto> \<lparr>root_path = ''docs/prd'', filename = ''a.md'', content = ''need X''\<rparr>],
      store_deps = Map.empty, changed_files = [''a.md'']\<rparr>"

definition demo_design_store :: doc_store where
  "demo_design_store =
     \<lparr>store_root = ''docs/system_design'', workdir = [''ws'', ''docs'', ''system_design''],
      store_docs = Map.empty, store_deps = Map.empty, changed_files = []\<rparr>"

definition demo_state :: design_state where
  "demo_state =
     \<lparr>prd = demo_prd_store, system_design = demo_design_store,
      llm_calls = [], mermaid_calls = [], pdf_calls = []\<rparr>"

text \<open>The same stores when the design document, not the requirement, is reported as changed.\<close>

definition demo_state_design_changed :: design_state where
  "demo_state_design_changed =
     demo_state\<lparr>prd := demo_prd_store\<lparr>changed_files := []\<rparr>,
                system_design := demo_design_store\<lparr>changed_files := [''a.md'']\<rparr>\<rparr>"

definition demo_fill :: "action_node \<Rightarrow> string \<Rightarrow> nat \<Rightarrow> error + json" where
  "demo_fill node context n = Inr (JObj [(''Implementation approach'', JStr context)])"

definition demo_dump :: "json \<Rightarrow> string" where
  "demo_dump j = ''{}''"

definition demo_design_env :: design_env where
  "demo_design_env =
     \<lparr>fill = demo_fill, model_dump_json = demo_dump, design_json_loads = demo_loads,
      DATA_STRUCTURES_AND_INTERFACES_key = ''Data structures and interfaces'',
      REFINED_DATA_STRUCTURES_AND_INTERFACES_key = ''Refined Data structures and interfaces'',
      PROGRAM_CALL_FLOW_key = ''Program call flow'',
      REFINED_PROGRAM_CALL_FLOW_key = ''Refined Program call flow'',
      DATA_API_DESIGN_FILE_REPO = ''resources/data_api_design'',
      SEQ_FLOW_FILE_REPO = ''resources/seq_flow'',
      repo_workdir = [''ws''],
      doc_root_relative_path = demo_root_relative_path,
      mermaid_error = (\<lambda>data pathname. None),
      pdf_error = Map.empty\<rparr>"

section \<open>Unfolding the definitions on concrete inputs\<close>

lemmas demo_defs =
  demo_ctx_def demo_ctx_manifest_def demo_wc_env_def demo_wc_env_down_def demo_doc_def
  demo_root_relative_path_def demo_save_def demo_open_write_def demo_aask_def demo_aask_down_def
  demo_ctx_loads_def demo_action_def demo_action_bugfix_def demo_env_def demo_env_no_json_def
  demo_loads_def

lemmas ensure_defs =
  ensure_critical_files_def project_dir_step_def names_project_def project_dir_of_def
  ensure_file_def critical_files_def save_dependencies_def mkdir_parents_def
  path_parts_def path_join_def is_absolute_def path_parent_def path_exists_def path_str_def Let_def

lemmas prompt_defs =
  prompt_step_def test_logs_step_def code_context_step_def summary_doc_of_def format_prompt_def
  content_or_empty_def get_codes_def codes_of_def Let_def

section \<open>Properties of \<^verbatim>\<open>get_codes\<close>\<close>

text \<open>What the two loops compute, for any list built so far.\<close>

lemma normal_loop_strings:
  "normal_loop src exclude (map JStr fnames) codes =
     Inr (codes @ map (\<lambda>f. code_block f (content (the (get src f))))
            (filter (\<lambda>f. f \<noteq> exclude \<and> get src f \<noteq> None) fnames))"
  by (induction fnames arbitrary: codes) auto

lemma inc_loop_no_exclude:
  "exclude \<notin> set us \<Longrightarrow>
   inc_loop src old old_files exclude us codes =
     Inr (codes @ map (\<lambda>f. code_block f (content (the (get src f))))
            (filter (\<lambda>f. f \<noteq> exclude \<and> get src f \<noteq> None) us))"
  by (induction us arbitrary: codes) auto

lemma inc_loop_marker:
  "distinct us \<Longrightarrow> exclude \<in> set us \<Longrightarrow> exclude \<in> set old_files \<Longrightarrow> exclude \<noteq> ''main.py'' \<Longrightarrow>
   get old exclude = Some od \<Longrightarrow>
   inc_loop src old old_files exclude us codes =
     Inr (rewritten_block exclude (content od) # codes @
          map (\<lambda>f. code_block f (content (the (get src f))))
            (filter (\<lambda>f. f \<noteq> exclude \<and> get src f \<noteq> None) us))"
proof (induction us arbitrary: codes)
  case Nil
  then show ?case by simp
next
  case (Cons u us)
  show ?case
  proof (cases "u = exclude")
    case True
    with Cons.prems have "exclude \<notin> set us" by simp
    with True Cons.prems show ?thesis
      by (simp add: inc_loop_no_exclude)
  next
    case False
    with Cons.prems have "distinct us" "exclude \<in> set us" by auto
    with False Cons.prems Cons.IH show ?thesis
      by (cases "get src u") simp_all
  qed
qed

lemma inc_loop_skip_absent:
  "fname \<noteq> exclude \<Longrightarrow> get src fname = None \<Longrightarrow>
   inc_loop src old old_files exclude us codes =
   inc_loop src (old\<lparr>get := (get old)(fname := d)\<rparr>) old_files exclude (removeAll fname us) codes"
  by (induction us arbitrary: codes) (auto split: option.splits)


lemma join_newline_Cons:
  "join_newline (x # xs) = x @ (if xs = [] then [] else ''\<newline>'' @ join_newline xs)"
  by (cases xs) simp_all

text \<open>
  Claim C7. In the normal scenario, for a task list of filenames, the output is the blocks
  of the filenames of the task list that are not the excluded one and that the source
  repository has, joined by newlines in the order of the task list; the excluded filename
  is not among them.
\<close>

theorem get_codes_normal_order:
  assumes "content td \<noteq> []"
    and "json_loads e (content td) = Some m"
    and "dict_get m (TASK_LIST_key e) (JArr []) = Inr (JArr (map JStr fnames))"
  shows "get_codes e (Some td) exclude repo False =
           Inr (join_newline (map (\<lambda>f. code_block f (content (the (get (srcs repo) f))))
                  (filter (\<lambda>f. f \<noteq> exclude \<and> get (srcs repo) f \<noteq> None) fnames)))
         \<and> exclude \<notin> set (filter (\<lambda>f. f \<noteq> exclude \<and> get (srcs repo) f \<noteq> None) fnames)"
  using assms by (simp add: get_codes_def codes_of_def Let_def normal_loop_strings)

text \<open>The task list c.js, b.js, d.js, a.js with b.js excluded and c.js absent.\<close>

theorem get_codes_normal_order_witness:
  \<open>content demo_task_doc \<noteq> []
   \<and> json_loads demo_env (content demo_task_doc) =
       Some (JObj [(''Task list'', JArr [JStr ''c.js'', JStr ''b.js'', JStr ''d.js'', JStr ''a.js''])])
   \<and> get_codes demo_env (Some demo_task_doc) ''b.js''
         \<lparr>srcs = demo_srcs3, old_workspace = demo_old\<rparr> False =
       Inr ''----- d.js\<newline>```new d```\<newline>----- a.js\<newline>```new a```''\<close>
proof -
  have h1: "content demo_task_doc \<noteq> []"
    by (simp add: demo_task_doc_def demo_doc_def)
  have h2: "json_loads demo_env (content demo_task_doc) =
       Some (JObj [(''Task list'', JArr [JStr ''c.js'', JStr ''b.js'', JStr ''d.js'', JStr ''a.js''])])"
    by (simp add: demo_task_doc_def demo_doc_def demo_env_def demo_loads_def)
  have h3: "dict_get (JObj [(''Task list'', JArr [JStr ''c.js'', JStr ''b.js'', JStr ''d.js'', JStr ''a.js''])])
              (TASK_LIST_key demo_env) (JArr []) =
            Inr (JArr (map JStr [''c.js'', ''b.js'', ''d.js'', ''a.js'']))"
    by (simp add: demo_env_def)
  show ?thesis
    using h1 h2
      get_codes_normal_order [OF h1 h2 h3, of "''b.js''" "\<lparr>srcs = demo_srcs3, old_workspace = demo_old\<rparr>"]
    by (simp add: demo_srcs3_def demo_doc_def code_block_def)
qed

text \<open>
  Claim C6. In the incremental scenario, when the old repository lists the excluded file,
  has it, and it is not \<^verbatim>\<open>main.py\<close>, the block announcing the rewrite, holding
  the old content verbatim, is the first element of the list that is joined, wherever the
  excluded filename stands in the union; the blocks of the other filenames follow in the
  order of the union. The output text therefore starts with that block.
\<close>

theorem get_codes_inc_marker_first:
  assumes "content td \<noteq> []"
    and "json_loads e (content td) = Some (JObj kvs)"
    and "us = list_of_union e (all_files (srcs repo)) (all_files (old_workspace repo))"
    and "distinct us"
    and "set us = set (all_files (srcs repo)) \<union> set (all_files (old_workspace repo))"
    and "exclude \<in> set (all_files (old_workspace repo))"
    and "exclude \<noteq> ''main.py''"
    and "get (old_workspace repo) exclude = Some od"
  shows "get_codes e (Some td) exclude repo True =
           Inr (join_newline (rewritten_block exclude (content od) #
                  map (\<lambda>f. code_block f (content (the (get (srcs repo) f))))
                    (filter (\<lambda>f. f \<noteq> exclude \<and> get (srcs repo) f \<noteq> None) us)))
         \<and> (\<exists>out. get_codes e (Some td) exclude repo True = Inr out
                \<and> take (length (rewritten_block exclude (content od))) out =
                    rewritten_block exclude (content od))"
proof -
  from assms have "exclude \<in> set us" by simp
  with assms have "inc_loop (srcs repo) (old_workspace repo) (all_files (old_workspace repo)) exclude us [] =
      Inr (rewritten_block exclude (content od) # [] @
          map (\<lambda>f. code_block f (content (the (get (srcs repo) f))))
            (filter (\<lambda>f. f \<noteq> exclude \<and> get (srcs repo) f \<noteq> None) us))"
    by (intro inc_loop_marker) simp_all
  with assms(1-3) have eq: "get_codes e (Some td) exclude repo True =
           Inr (join_newline (rewritten_block exclude (content od) #
                  map (\<lambda>f. code_block f (content (the (get (srcs repo) f))))
                    (filter (\<lambda>f. f \<noteq> exclude \<and> get (srcs repo) f \<noteq> None) us)))"
    by (simp add: get_codes_def codes_of_def Let_def)
  then show ?thesis
    by (simp add: join_newline_Cons)
qed

text \<open>The union a.js, b.js, c.js with b.js excluded: b.js stands in the middle.\<close>

theorem get_codes_inc_marker_first_witness:
  \<open>content (demo_doc ''t.json'' ''{}'') \<noteq> []
   \<and> json_loads demo_env (content (demo_doc ''t.json'' ''{}'')) = Some (JObj [])
   \<and> list_of_union demo_env (all_files (srcs demo_repo)) (all_files (old_workspace demo_repo)) =
       [''a.js'', ''b.js'', ''c.js'']
   \<and> ''b.js'' \<in> set (all_files (old_workspace demo_repo))
   \<and> get (old_workspace demo_repo) ''b.js'' = Some (demo_doc ''b.js'' ''old b'')
   \<and> get_codes demo_env (Some (demo_doc ''t.json'' ''{}'')) ''b.js'' demo_repo True =
       Inr ''-----Now, b.js to be rewritten\<newline>```old b```\<newline>=====\<newline>----- a.js\<newline>```new a```''\<close>
proof -
  let ?td = "demo_doc ''t.json'' ''{}''"
  let ?us = "[''a.js'', ''b.js'', ''c.js'']"
  have h1: "content ?td \<noteq> []" by (simp add: demo_doc_def)
  have h2: "json_loads demo_env (content ?td) = Some (JObj [])"
    by (simp add: demo_doc_def demo_env_def demo_loads_def)
  have h3: "?us = list_of_union demo_env (all_files (srcs demo_repo)) (all_files (old_workspace demo_repo))"
    by (simp add: demo_env_def demo_union_def demo_repo_def demo_srcs_def demo_old_def)
  have h4: "distinct ?us" by simp
  have h5: "set ?us = set (all_files (srcs demo_repo)) \<union> set (all_files (old_workspace demo_repo))"
    by (auto simp add: demo_repo_def demo_srcs_def demo_old_def)
  have h6: "''b.js'' \<in> set (all_files (old_workspace demo_repo))"
    by (simp add: demo_repo_def demo_old_def)
  have h7: \<open>''b.js'' \<noteq> ''main.py''\<close> by simp
  have h8: "get (old_workspace demo_repo) ''b.js'' = Some (demo_doc ''b.js'' ''old b'')"
    by (simp add: demo_repo_def demo_old_def)
  have r: "get_codes demo_env (Some ?td) ''b.js'' demo_repo True =
      Inr (join_newline (rewritten_block ''b.js'' (content (demo_doc ''b.js'' ''old b'')) #
             map (\<lambda>f. code_block f (content (the (get (srcs demo_repo) f))))
               (filter (\<lambda>f. f \<noteq> ''b.js'' \<and> get (srcs demo_repo) f \<noteq> None) ?us)))"
    by (rule conjunct1 [OF get_codes_inc_marker_first [OF h1 h2 h3 h4 h5 h6 h7 h8]])
  have r': "get_codes demo_env (Some ?td) ''b.js'' demo_repo True =
      Inr ''-----Now, b.js to be rewritten\<newline>```old b```\<newline>=====\<newline>----- a.js\<newline>```new a```''"
    unfolding r
    by (simp add: demo_repo_def demo_srcs_def demo_doc_def code_block_def rewritten_block_def)
  show ?thesis
    using h1 h2 h3 [symmetric] h6 h8 r' by simp
qed

text \<open>
  Claim C2, as amended. In the incremental scenario, a filename that is not the excluded
  one and that the current source repository does not have is skipped: the output is the
  one obtained with the filename removed from the union, whatever the old repository
  holds for it. The old repository is only read for the excluded filename.
\<close>

theorem get_codes_inc_skips_absent:
  assumes "fname \<noteq> exclude" and "get (srcs repo) fname = None"
  shows "get_codes e td exclude repo True =
         get_codes (e\<lparr>list_of_union := \<lambda>a b. removeAll fname (list_of_union e a b)\<rparr>) td exclude
           (repo\<lparr>old_workspace := (old_workspace repo)\<lparr>get := (get (old_workspace repo))(fname := d)\<rparr>\<rparr>) True"
proof -
  have "inc_loop (srcs repo) (old_workspace repo) (all_files (old_workspace repo)) exclude
          (list_of_union e (all_files (srcs repo)) (all_files (old_workspace repo))) [] =
        inc_loop (srcs repo) ((old_workspace repo)\<lparr>get := (get (old_workspace repo))(fname := d)\<rparr>)
          (all_files (old_workspace repo)) exclude
          (removeAll fname (list_of_union e (all_files (srcs repo)) (all_files (old_workspace repo)))) []"
    by (rule inc_loop_skip_absent [OF assms])
  then have "codes_of e m exclude repo True =
        codes_of (e\<lparr>list_of_union := \<lambda>a b. removeAll fname (list_of_union e a b)\<rparr>) m exclude
           (repo\<lparr>old_workspace := (old_workspace repo)\<lparr>get := (get (old_workspace repo))(fname := d)\<rparr>\<rparr>) True"
    for m
    by (simp add: codes_of_def Let_def split: sum.split)
  then show ?thesis
    by (simp add: get_codes_def split: option.split sum.split)
qed

text \<open>Removing c.js from the union of the scenario, and from the old repository, changes nothing.\<close>

theorem get_codes_inc_skips_absent_witness:
  \<open>''c.js'' \<noteq> ''b.js''
   \<and> get (srcs demo_repo) ''c.js'' = None
   \<and> get_codes demo_env (Some (demo_doc ''t.json'' ''{}'')) ''b.js'' demo_repo True =
       get_codes (demo_env\<lparr>list_of_union := \<lambda>a b. removeAll ''c.js'' (list_of_union demo_env a b)\<rparr>)
         (Some (demo_doc ''t.json'' ''{}'')) ''b.js''
         (demo_repo\<lparr>old_workspace :=
            (old_workspace demo_repo)\<lparr>get := (get (old_workspace demo_repo))(''c.js'' := None)\<rparr>\<rparr>) True\<close>
proof -
  have h1: \<open>''c.js'' \<noteq> ''b.js''\<close> by simp
  have h2: "get (srcs demo_repo) ''c.js'' = None"
    by (simp add: demo_repo_def demo_srcs_def)
  show ?thesis
    using h1 h2 get_codes_inc_skips_absent [OF h1 h2, of demo_env "Some (demo_doc ''t.json'' ''{}'')" None]
    by simp
qed

text \<open>
  Claim C2 as stated fails on the scenario of the specification: current files a.js and
  b.js, old files b.js and c.js, b.js excluded. The file c.js is in the union, is not
  excluded, is absent from the current repository and present in the old one, and the
  output has no block for it.
\<close>

theorem get_codes_inc_old_only_counterexample:
  \<open>''c.js'' \<in> set (list_of_union demo_env (all_files (srcs demo_repo)) (all_files (old_workspace demo_repo)))
   \<and> ''c.js'' \<noteq> ''b.js''
   \<and> get (srcs demo_repo) ''c.js'' = None
   \<and> ''c.js'' \<notin> set (all_files (srcs demo_repo))
   \<and> map_option content (get (old_workspace demo_repo) ''c.js'') = Some ''old c''
   \<and> codes_of demo_env (JObj []) ''b.js'' demo_repo True =
       Inr [rewritten_block ''b.js'' ''old b'', code_block ''a.js'' ''new a'']
   \<and> get_codes demo_env (Some (demo_doc ''t.json'' ''{}'')) ''b.js'' demo_repo True =
       Inr ''-----Now, b.js to be rewritten\<newline>```old b```\<newline>=====\<newline>----- a.js\<newline>```new a```''\<close>
  by (simp add: get_codes_def codes_of_def Let_def demo_env_def demo_union_def demo_loads_def demo_repo_def
      demo_srcs_def demo_old_def demo_doc_def code_block_def rewritten_block_def)

text \<open>
  Claim C4, as amended. When the task document is absent, \<^verbatim>\<open>get_codes\<close> returns
  the empty text in both scenarios.
\<close>

theorem get_codes_absent_task_doc:
  "get_codes e None exclude repo use_inc = Inr []"
  by (simp add: get_codes_def)

text \<open>
  Claim C4 as stated fails for a task document that is present with empty content: the
  code goes on to re-read it from the task repository instead of returning, and the
  result is not the empty text in either scenario.
\<close>

theorem get_codes_empty_task_doc_counterexample:
  "get_codes demo_env (Some (demo_doc ''t.json'' [])) ''b.js'' demo_repo False \<noteq> Inr []
   \<and> get_codes demo_env (Some (demo_doc ''t.json'' [])) ''b.js'' demo_repo True \<noteq> Inr []"
  by (simp add: get_codes_def demo_doc_def)

section \<open>Properties of \<^verbatim>\<open>write_code\<close> and \<^verbatim>\<open>run\<close>\<close>

text \<open>
  The retry loop returns the first result when it comes within the allowed attempts, and
  raises \<^verbatim>\<open>RetryError\<close> around the last exception otherwise.
\<close>

lemma retry_from_success:
  assumes "attempt k = Inr v" and "k \<le> m"
    and "\<And>i. n \<le> i \<Longrightarrow> i < k \<Longrightarrow> isl (attempt i)"
    and "n \<le> k"
  shows "retry_from m attempt n = Inr v"
  using assms(3,4)
proof (induction "k - n" arbitrary: n)
  case 0
  then have "n = k" by simp
  with assms(1) show ?case by (subst retry_from.simps) simp
next
  case (Suc d)
  then have lt: "n < k" by simp
  with Suc.prems have "isl (attempt n)" by simp
  then obtain err where err: "attempt n = Inl err" by (cases "attempt n") auto
  have "retry_from m attempt (Suc n) = Inr v"
    using Suc.hyps Suc.prems lt by (intro Suc.hyps(1)) auto
  with err lt assms(2) show ?case by (subst retry_from.simps) simp
qed

lemma retry_from_exhausted:
  assumes "\<And>i. n \<le> i \<Longrightarrow> i \<le> m \<Longrightarrow> isl (attempt i)" and "n \<le> m"
  shows "retry_from m attempt n = Inl (RetryError (projl (attempt m)))"
  using assms
proof (induction "m - n" arbitrary: n)
  case 0
  then have "n = m" by simp
  moreover from 0 this have "isl (attempt m)" by simp
  then obtain err where "attempt m = Inl err" by (cases "attempt m") auto
  ultimately show ?case by (subst retry_from.simps) simp
next
  case (Suc d)
  then have lt: "n < m" by simp
  with Suc.prems have "isl (attempt n)" by simp
  then obtain err where err: "attempt n = Inl err" by (cases "attempt n") auto
  have "retry_from m attempt (Suc n) = Inl (RetryError (projl (attempt m)))"
    using Suc.hyps Suc.prems lt by (intro Suc.hyps(1)) auto
  with err lt show ?case by (subst retry_from.simps) simp
qed

lemma write_code_sixth:
  assumes "\<And>n. 1 \<le> n \<Longrightarrow> n \<le> 5 \<Longrightarrow> isl (aask w n prompt)"
    and "aask w 6 prompt = Inr rsp" and "parse_code w rsp = Inr c"
  shows "write_code w prompt = Inr c"
  unfolding write_code_def
proof (rule retry_from_success [where k = 6])
  show "write_code_body w prompt 6 = Inr c"
    using assms(2,3) by (simp add: write_code_body_def)
  fix i :: nat assume "1 \<le> i" "i < 6"
  then have "isl (aask w i prompt)" using assms(1) by simp
  then show "isl (write_code_body w prompt i)"
    by (cases "aask w i prompt") (simp_all add: write_code_body_def)
qed simp_all

lemma write_code_all_fail:
  assumes "\<And>n. 1 \<le> n \<Longrightarrow> n \<le> 6 \<Longrightarrow> isl (aask w n prompt)"
  shows "write_code w prompt = Inl (RetryError (projl (aask w 6 prompt)))"
proof -
  have body: "write_code_body w prompt i = Inl (projl (aask w i prompt))" if "1 \<le> i" "i \<le> 6" for i
    using assms [OF that] by (cases "aask w i prompt") (simp_all add: write_code_body_def)
  have "retry_from 6 (write_code_body w prompt) 1 =
          Inl (RetryError (projl (write_code_body w prompt 6)))"
    by (rule retry_from_exhausted) (simp_all add: body)
  then show ?thesis
    by (simp add: write_code_def body)
qed

text \<open>
  Claim C5. When \<^verbatim>\<open>_aask\<close> raises on the attempts 1 to 5 and answers on the
  sixth, \<^verbatim>\<open>write_code\<close> returns the code parsed from the sixth answer. When it raises
  on all six attempts, \<^verbatim>\<open>write_code\<close> raises (\<^verbatim>\<open>RetryError\<close> around the sixth
  exception); \<^verbatim>\<open>run\<close> then takes the empty text as the code, so that it goes on
  exactly as after an empty answer: the code document of the coding context it returns
  has empty content. (What \<^verbatim>\<open>run\<close> can still raise afterwards is the \<^verbatim>\<open>OSError\<close>
  of a \<^verbatim>\<open>mkdir\<close> in \<^verbatim>\<open>ensure_critical_files\<close>.)
\<close>

theorem write_code_retry_then_downgrade:
  "((\<forall>n. 1 \<le> n \<and> n \<le> 5 \<longrightarrow> isl (aask w n prompt))
      \<and> aask w 6 prompt = Inr rsp \<and> parse_code w rsp = Inr c
     \<longrightarrow> write_code w prompt = Inr c)
   \<and> ((\<forall>n. 1 \<le> n \<and> n \<le> 6 \<longrightarrow> isl (aask w n prompt))
     \<longrightarrow> write_code w prompt = Inl (RetryError (projl (aask w 6 prompt)))
         \<and> generated_code w prompt = []
         \<and> (prompt_step e w self = Inr (ctx, prompt)
              \<longrightarrow> run e w self fs =
                    (case ensure_critical_files w fs (store_code self ctx []) of
                       Inl err \<Rightarrow> Inl err
                     | Inr (fs', added_files) \<Rightarrow> Inr (store_code self ctx [], fs'))
                  \<and> map_option content (code_doc (store_code self ctx [])) = Some []))"
proof (intro conjI impI)
  assume "(\<forall>n. 1 \<le> n \<and> n \<le> 5 \<longrightarrow> isl (aask w n prompt))
      \<and> aask w 6 prompt = Inr rsp \<and> parse_code w rsp = Inr c"
  then show "write_code w prompt = Inr c"
    by (intro write_code_sixth) auto
next
  assume fail: "\<forall>n. 1 \<le> n \<and> n \<le> 6 \<longrightarrow> isl (aask w n prompt)"
  then show wc: "write_code w prompt = Inl (RetryError (projl (aask w 6 prompt)))"
    by (intro write_code_all_fail) auto
  then show gen: "generated_code w prompt = []"
    by (simp add: generated_code_def)
  assume "prompt_step e w self = Inr (ctx, prompt)"
  with gen show "run e w self fs =
                    (case ensure_critical_files w fs (store_code self ctx []) of
                       Inl err \<Rightarrow> Inl err
                     | Inr (fs', added_files) \<Rightarrow> Inr (store_code self ctx [], fs'))"
    by (simp add: run_def Let_def split: sum.split prod.split)
next
  show "map_option content (code_doc (store_code self ctx [])) = Some []"
    by (simp add: store_code_def Let_def)
qed

text \<open>
  A backend that fails five times and then answers; a backend that always fails, with
  the run that returns the coding context with empty code and leaves the manifest on the
  disk.
\<close>

theorem write_code_retry_then_downgrade_witness:
  "list_all (\<lambda>n. isl (aask demo_wc_env n demo_prompt)) [1, 2, 3, 4, 5]
   \<and> aask demo_wc_env 6 demo_prompt = Inr ''print(1)''
   \<and> parse_code demo_wc_env ''print(1)'' = Inr ''print(1)''
   \<and> write_code demo_wc_env demo_prompt = Inr ''print(1)''
   \<and> list_all (\<lambda>n. isl (aask demo_wc_env_down n demo_prompt)) [1, 2, 3, 4, 5, 6]
   \<and> write_code demo_wc_env_down demo_prompt = Inl (RetryError (BackendError ''overloaded''))
   \<and> prompt_step demo_env demo_wc_env_down demo_action = Inr (demo_ctx, demo_prompt)
   \<and> run demo_env demo_wc_env_down demo_action Map.empty =
       Inr (demo_ctx\<lparr>code_doc := Some (demo_doc ''myapp/backend/server.js'' [])\<rparr>, demo_disk)"
proof -
  have a1: "\<forall>n. 1 \<le> n \<and> n \<le> 5 \<longrightarrow> isl (aask demo_wc_env n demo_prompt)"
    by (simp add: demo_defs)
  have a2: "aask demo_wc_env 6 demo_prompt = Inr ''print(1)''"
    by (simp add: demo_defs)
  have a3: "parse_code demo_wc_env ''print(1)'' = Inr ''print(1)''"
    by (simp add: demo_defs)
  have b1: "\<forall>n. 1 \<le> n \<and> n \<le> 6 \<longrightarrow> isl (aask demo_wc_env_down n demo_prompt)"
    by (simp add: demo_defs)
  have b2: "prompt_step demo_env demo_wc_env_down demo_action = Inr (demo_ctx, demo_prompt)"
    by (simp add: prompt_defs demo_defs demo_prompt_def)
  have b3: "ensure_critical_files demo_wc_env_down Map.empty (store_code demo_action demo_ctx []) =
      Inr (demo_disk, {''ws/myapp/package.json''})"
    by (simp add: store_code_def ensure_defs demo_defs demo_disk_def)
  have b4: "store_code demo_action demo_ctx [] =
      demo_ctx\<lparr>code_doc := Some (demo_doc ''myapp/backend/server.js'' [])\<rparr>"
    by (simp add: store_code_def demo_defs)
  have b5: "projl (aask demo_wc_env_down 6 demo_prompt) = BackendError ''overloaded''"
    by (simp add: demo_defs)
  note thm1 = write_code_retry_then_downgrade
    [of demo_wc_env demo_prompt "''print(1)''" "''print(1)''" demo_env demo_action demo_ctx Map.empty]
  note thm2 = write_code_retry_then_downgrade
    [of demo_wc_env_down demo_prompt "''print(1)''" "''print(1)''" demo_env demo_action demo_ctx Map.empty]
  from thm1 a1 a2 a3 have r1: "write_code demo_wc_env demo_prompt = Inr ''print(1)''"
    by blast
  from thm2 b1 b2 have r2: "write_code demo_wc_env_down demo_prompt =
      Inl (RetryError (projl (aask demo_wc_env_down 6 demo_prompt)))"
    and r3: "run demo_env demo_wc_env_down demo_action Map.empty =
      (case ensure_critical_files demo_wc_env_down Map.empty (store_code demo_action demo_ctx []) of
         Inl err \<Rightarrow> Inl err
       | Inr (fs', added_files) \<Rightarrow> Inr (store_code demo_action demo_ctx [], fs'))"
    by blast+
  have r4: "run demo_env demo_wc_env_down demo_action Map.empty =
       Inr (demo_ctx\<lparr>code_doc := Some (demo_doc ''myapp/backend/server.js'' [])\<rparr>, demo_disk)"
    unfolding r3 b3 by (simp add: b4)
  from r2 have r5: "write_code demo_wc_env_down demo_prompt = Inl (RetryError (BackendError ''overloaded''))"
    by (simp only: b5)
  have a1': "list_all (\<lambda>n. isl (aask demo_wc_env n demo_prompt)) [1, 2, 3, 4, 5]"
    and b1': "list_all (\<lambda>n. isl (aask demo_wc_env_down n demo_prompt)) [1, 2, 3, 4, 5, 6]"
    by (simp_all add: demo_defs)
  show ?thesis
    using a1' a2 a3 r1 b1' r5 b2 r4 by blast
qed

text \<open>
  Claim C10. When the docs repository has a bug-fix document, the code context put into
  the prompt is the content of the code document of the coding context, and the prompt
  does not depend on anything \<^verbatim>\<open>get_codes\<close> reads: neither on the environment of
  \<^verbatim>\<open>get_codes\<close> nor on the two repositories it would be given.
\<close>

theorem bugfix_context_is_code_doc:
  assumes "repo_docs self (BUGFIX_FILENAME w) = Some bf"
    and "CodingContext_loads w (content (i_context self)) = Inr ctx"
    and "code_doc ctx = Some cd"
    and "test_logs_step w (repo_test_outputs self (''test_'' @ ctx_filename ctx @ ''.json'')) = Inr test_logs"
  shows "code_context_step e self (Some bf) ctx = Inr (content cd)
         \<and> prompt_step e w self =
             Inr (ctx, format_prompt w self (Some bf) (repo_docs self (REQUIREMENT_FILENAME w))
                         (summary_doc_of self ctx) ctx (content cd) test_logs)
         \<and> prompt_step e' w (self\<lparr>self_repo := r1, self_repo_with_src_path := r2\<rparr>) = prompt_step e w self"
  using assms
  by (simp add: code_context_step_def prompt_step_def Let_def format_prompt_def summary_doc_of_def
      split: option.split)

text \<open>
  With a bug-fix document the prompt is built even where \<^verbatim>\<open>get_codes\<close> would raise
  on the task document.
\<close>

theorem bugfix_context_is_code_doc_witness:
  "repo_docs demo_action_bugfix (BUGFIX_FILENAME demo_wc_env) = Some (demo_doc ''bugfix.txt'' ''fix the crash'')
   \<and> CodingContext_loads demo_wc_env (content (i_context demo_action_bugfix)) = Inr demo_ctx
   \<and> code_doc demo_ctx = Some (demo_doc ''myapp/backend/server.js'' ''old code'')
   \<and> test_logs_step demo_wc_env
        (repo_test_outputs demo_action_bugfix (''test_'' @ ctx_filename demo_ctx @ ''.json'')) = Inr []
   \<and> get_codes demo_env_no_json (task_doc demo_ctx) (filename (i_context demo_action_bugfix))
        (self_repo_with_src_path demo_action_bugfix) False = Inl JSONDecodeError
   \<and> prompt_step demo_env_no_json demo_wc_env demo_action_bugfix =
       Inr (demo_ctx,
            PROMPT_TEMPLATE_format ''the design'' ''{}'' ''old code'' [] ''fix the crash''
              ''myapp/backend/server.js'')"
proof -
  have h1: "repo_docs demo_action_bugfix (BUGFIX_FILENAME demo_wc_env) =
      Some (demo_doc ''bugfix.txt'' ''fix the crash'')"
    by (simp add: demo_defs)
  have h2: "CodingContext_loads demo_wc_env (content (i_context demo_action_bugfix)) = Inr demo_ctx"
    by (simp add: demo_action_bugfix_def demo_action_def demo_wc_env_def demo_ctx_loads_def demo_doc_def)
  have h3: "code_doc demo_ctx = Some (demo_doc ''myapp/backend/server.js'' ''old code'')"
    by (simp add: demo_defs)
  have h4: "test_logs_step demo_wc_env
        (repo_test_outputs demo_action_bugfix (''test_'' @ ctx_filename demo_ctx @ ''.json'')) = Inr []"
    by (simp add: test_logs_step_def demo_action_bugfix_def demo_action_def)
  have g: "get_codes demo_env_no_json (task_doc demo_ctx) (filename (i_context demo_action_bugfix))
        (self_repo_with_src_path demo_action_bugfix) False = Inl JSONDecodeError"
    by (simp add: get_codes_def demo_defs)
  have p: "prompt_step demo_env_no_json demo_wc_env demo_action_bugfix =
      Inr (demo_ctx, format_prompt demo_wc_env demo_action_bugfix (Some (demo_doc ''bugfix.txt'' ''fix the crash''))
                         (repo_docs demo_action_bugfix (REQUIREMENT_FILENAME demo_wc_env))
                         (summary_doc_of demo_action_bugfix demo_ctx) demo_ctx
                         (content (demo_doc ''myapp/backend/server.js'' ''old code'')) [])"
    using bugfix_context_is_code_doc [OF h1 h2 h3 h4, of demo_env_no_json] by blast
  have p': "prompt_step demo_env_no_json demo_wc_env demo_action_bugfix =
       Inr (demo_ctx,
            PROMPT_TEMPLATE_format ''the design'' ''{}'' ''old code'' [] ''fix the crash''
              ''myapp/backend/server.js'')"
    unfolding p by (simp add: format_prompt_def content_or_empty_def demo_defs)
  from h1 h2 h3 h4 g p' show ?thesis by blast
qed

section \<open>Properties of the file system and of \<^verbatim>\<open>ensure_critical_files\<close>\<close>

lemma only_new_dirs_refl: "only_new_dirs fs fs"
  by (simp add: only_new_dirs_def)

lemma only_new_dirs_at: "only_new_dirs fs fs' \<Longrightarrow> fs' q = fs q \<or> (fs q = None \<and> fs' q = Some Dir)"
  by (simp add: only_new_dirs_def)

lemma only_new_dirs_trans:
  assumes "only_new_dirs a b" and "only_new_dirs b c"
  shows "only_new_dirs a c"
  unfolding only_new_dirs_def
proof
  fix q
  from only_new_dirs_at [OF assms(1), of q] only_new_dirs_at [OF assms(2), of q]
  show "c q = a q \<or> (a q = None \<and> c q = Some Dir)" by auto
qed

lemma only_new_dirs_exists: "only_new_dirs fs fs' \<Longrightarrow> path_exists fs p \<Longrightarrow> fs' p = fs p"
  using only_new_dirs_at [of fs fs' p] by (auto simp add: path_exists_def)

lemma only_new_dirs_file: "only_new_dirs fs fs' \<Longrightarrow> fs q = Some (File c) \<Longrightarrow> fs' q = Some (File c)"
  using only_new_dirs_at [of fs fs' q] by auto

lemma only_new_dirs_is_file: "only_new_dirs fs fs' \<Longrightarrow> is_file (fs' q) \<Longrightarrow> is_file (fs q)"
  using only_new_dirs_at [of fs fs' q] by (auto simp add: is_file_def)

lemma mkdirs_only_new_dirs: "mkdirs fs pre segs = Inr fs' \<Longrightarrow> only_new_dirs fs fs'"
proof (induction segs arbitrary: fs pre)
  case Nil
  then show ?case by (simp add: only_new_dirs_refl)
next
  case (Cons seg segs)
  show ?case
  proof (cases "fs (pre @ [seg])")
    case None
    with Cons.prems have "mkdirs (fs(pre @ [seg] \<mapsto> Dir)) (pre @ [seg]) segs = Inr fs'" by simp
    then have "only_new_dirs (fs(pre @ [seg] \<mapsto> Dir)) fs'" by (rule Cons.IH)
    moreover have "only_new_dirs fs (fs(pre @ [seg] \<mapsto> Dir))"
      using None by (simp add: only_new_dirs_def)
    ultimately show ?thesis by (rule only_new_dirs_trans [rotated])
  next
    case (Some nd)
    with Cons.prems show ?thesis
      by (cases nd) (auto intro: Cons.IH)
  qed
qed

lemma mkdirs_error: "mkdirs fs pre segs = Inl err \<Longrightarrow> err = OSError"
  by (induction segs arbitrary: fs pre) (auto split: option.splits node.splits)

lemma mkdirs_last: "mkdirs fs pre segs = Inr fs' \<Longrightarrow> segs \<noteq> [] \<Longrightarrow> fs' (pre @ segs) = Some Dir"
proof (induction segs arbitrary: fs pre)
  case Nil
  then show ?case by simp
next
  case (Cons seg segs)
  show ?case
  proof (cases "segs = []")
    case True
    with Cons.prems show ?thesis
      by (auto split: option.splits node.splits)
  next
    case False
    with Cons.prems Cons.IH [of _ "pre @ [seg]"] show ?thesis
      by (auto split: option.splits node.splits)
  qed
qed

lemma mkdirs_succeeds:
  "(\<And>k. 0 < k \<Longrightarrow> k \<le> length segs \<Longrightarrow> \<not> is_file (fs (pre @ take k segs))) \<Longrightarrow>
   \<exists>fs'. mkdirs fs pre segs = Inr fs'"
proof (induction segs arbitrary: fs pre)
  case Nil
  then show ?case by simp
next
  case (Cons seg segs)
  have first: "\<not> is_file (fs (pre @ [seg]))"
    using Cons.prems [of 1] by simp
  have later: "\<not> is_file (fs ((pre @ [seg]) @ take k segs))" if "0 < k" "k \<le> length segs" for k
    using Cons.prems [of "Suc k"] that by simp
  show ?case
  proof (cases "fs (pre @ [seg])")
    case None
    have "\<not> is_file ((fs(pre @ [seg] \<mapsto> Dir)) ((pre @ [seg]) @ take k segs))"
      if "0 < k" "k \<le> length segs" for k
    proof -
      from that have "take k segs \<noteq> []" by auto
      then have "(pre @ [seg]) @ take k segs \<noteq> pre @ [seg]" by simp
      with later [OF that] show ?thesis by simp
    qed
    then have "\<exists>fs'. mkdirs (fs(pre @ [seg] \<mapsto> Dir)) (pre @ [seg]) segs = Inr fs'"
      by (rule Cons.IH)
    with None show ?thesis by simp
  next
    case (Some nd)
    with first have nd: "nd = Dir" by (cases nd) (simp_all add: is_file_def)
    have "\<exists>fs'. mkdirs fs (pre @ [seg]) segs = Inr fs'"
      using later by (rule Cons.IH)
    with Some nd show ?thesis by simp
  qed
qed

lemma mkdir_parents_succeeds:
  assumes "\<not> file_in_the_way fs p"
  shows "\<exists>fs'. mkdir_parents fs p = Inr fs'"
  unfolding mkdir_parents_def
proof (rule mkdirs_succeeds)
  fix k assume "0 < k" "k \<le> length p"
  with assms show "\<not> is_file (fs ([] @ take k p))"
    by (auto simp add: file_in_the_way_def)
qed

lemma mkdir_parents_only_new_dirs: "mkdir_parents fs p = Inr fs' \<Longrightarrow> only_new_dirs fs fs'"
  unfolding mkdir_parents_def by (rule mkdirs_only_new_dirs)

lemma mkdir_parents_error: "mkdir_parents fs p = Inl err \<Longrightarrow> err = OSError"
  unfolding mkdir_parents_def by (rule mkdirs_error)

lemma mkdir_parents_last: "mkdir_parents fs p = Inr fs' \<Longrightarrow> p \<noteq> [] \<Longrightarrow> fs' p = Some Dir"
  unfolding mkdir_parents_def using mkdirs_last [of fs "[]" p fs'] by simp

lemma file_in_the_way_mono:
  "only_new_dirs fs fs' \<Longrightarrow> file_in_the_way fs' p \<Longrightarrow> file_in_the_way fs p"
  unfolding file_in_the_way_def by (blast intro: only_new_dirs_is_file)


lemma split_on_no_sep: "x \<in> set (split_on c s) \<Longrightarrow> c \<notin> set x"
  by (induction s arbitrary: x) (auto split: if_splits list.splits)

lemma split_on_ne: "split_on c s \<noteq> []"
  by (induction s) (auto split: list.splits)

lemma split_on_single: "c \<notin> set x \<Longrightarrow> split_on c x = [x]"
  by (induction x) (auto split: list.splits)

lemma path_parts_segment:
  assumes "CHR ''/'' \<notin> set seg" and "seg \<noteq> []" and "seg \<noteq> ''.''"
  shows "path_parts seg = [seg]"
proof -
  from assms(1,2) have "take 1 seg \<noteq> ''/''" by (cases seg) auto
  with assms show ?thesis
    by (simp add: path_parts_def split_on_single)
qed

lemma path_parts_root: "path_parts ''/'' = [''/'']" "path_parts ''//'' = [''//'']"
  by (simp_all add: path_parts_def)

lemma path_parts_hd:
  assumes "path_parts s = seg # rest"
  shows "path_parts seg = [seg]"
proof (cases "take 1 s = ''/''")
  case True
  with assms have "seg = ''/'' \<or> seg = ''//''"
    by (auto simp add: path_parts_def split: if_splits)
  then show ?thesis using path_parts_root by auto
next
  case False
  with assms have "seg \<in> set (filter (\<lambda>x. x \<noteq> [] \<and> x \<noteq> ''.'') (split_on CHR ''/'' s))"
    by (simp add: path_parts_def)
  then have "seg \<in> set (split_on CHR ''/'' s)" "seg \<noteq> []" "seg \<noteq> ''.''" by auto
  then show ?thesis
    by (intro path_parts_segment) (auto dest: split_on_no_sep)
qed

lemma path_parts_names:
  "path_parts ''frontend'' = [''frontend'']" "path_parts ''backend'' = [''backend'']"
  "path_parts ''package.json'' = [''package.json'']"
  by (simp_all add: path_parts_def)

lemma path_join_name: "\<not> is_absolute q \<Longrightarrow> path_join p q = p @ q"
  by (simp add: path_join_def)

lemma project_dir_step_cases:
  "project_dir_step fs ws fp = Inl OSError
   \<or> (\<exists>fs1. project_dir_step fs ws fp = Inr (project_dir_of ws fp, fs1) \<and> only_new_dirs fs fs1)"
proof (cases "names_project fp")
  case False
  then show ?thesis
    by (simp add: project_dir_step_def project_dir_of_def only_new_dirs_refl)
next
  case True
  let ?pd = "path_join ws (path_parts (hd fp))"
  show ?thesis
  proof (cases "mkdir_parents fs (path_join ?pd (path_parts ''frontend''))")
    case (Inl err)
    with True mkdir_parents_error [OF Inl] show ?thesis
      by (simp add: project_dir_step_def Let_def)
  next
    case fs1: (Inr fs1)
    show ?thesis
    proof (cases "mkdir_parents fs1 (path_join ?pd (path_parts ''backend''))")
      case (Inl err)
      with True fs1 mkdir_parents_error [OF Inl] show ?thesis
        by (simp add: project_dir_step_def Let_def)
    next
      case (Inr fs2)
      have "only_new_dirs fs fs2"
        using mkdir_parents_only_new_dirs [OF fs1] mkdir_parents_only_new_dirs [OF Inr]
        by (rule only_new_dirs_trans)
      with True fs1 Inr show ?thesis
        by (simp add: project_dir_step_def project_dir_of_def Let_def)
    qed
  qed
qed

lemma ensure_file_existing:
  assumes "path_exists fs (path_join pd (path_parts fp))"
  shows "ensure_file w ctx pd (fp, c) (fs, added) = Inl OSError
         \<or> (\<exists>fs'. ensure_file w ctx pd (fp, c) (fs, added) = Inr (fs', added) \<and> only_new_dirs fs fs')"
proof (cases "mkdir_parents fs (path_parent (path_join pd (path_parts fp)))")
  case (Inl err)
  with mkdir_parents_error [OF Inl] show ?thesis
    by (simp add: ensure_file_def Let_def)
next
  case (Inr fs1)
  have grow: "only_new_dirs fs fs1" by (rule mkdir_parents_only_new_dirs [OF Inr])
  with assms have "path_exists fs1 (path_join pd (path_parts fp))"
    by (simp add: only_new_dirs_exists path_exists_def)
  with Inr grow show ?thesis
    by (simp add: ensure_file_def Let_def)
qed

lemma ensure_critical_files_existing:
  assumes "code_doc ctx = Some cd"
    and "path_exists fs
           (path_join (project_dir_of (path_parts (root_path cd)) (path_parts (ctx_filename ctx)))
              (path_parts ''package.json''))"
  shows "ensure_critical_files w fs ctx = Inl OSError
         \<or> (\<exists>fs'. ensure_critical_files w fs ctx = Inr (fs', {}) \<and> only_new_dirs fs fs')"
proof (cases "root_relative_path w cd = []")
  case True
  with assms(1) show ?thesis
    by (simp add: ensure_critical_files_def only_new_dirs_refl)
next
  case False
  let ?ws = "path_parts (root_path cd)" and ?fp = "path_parts (ctx_filename ctx)"
  from project_dir_step_cases [of fs ?ws ?fp] show ?thesis
  proof
    assume "project_dir_step fs ?ws ?fp = Inl OSError"
    with False assms(1) show ?thesis
      by (simp add: ensure_critical_files_def Let_def)
  next
    assume "\<exists>fs1. project_dir_step fs ?ws ?fp = Inr (project_dir_of ?ws ?fp, fs1) \<and> only_new_dirs fs fs1"
    then obtain fs1 where step: "project_dir_step fs ?ws ?fp = Inr (project_dir_of ?ws ?fp, fs1)"
      and grow: "only_new_dirs fs fs1" by blast
    from grow assms(2) have "path_exists fs1 (path_join (project_dir_of ?ws ?fp) (path_parts ''package.json''))"
      by (simp add: only_new_dirs_exists path_exists_def)
    from ensure_file_existing [OF this, of w ctx package_json_content "{}"]
    show ?thesis
    proof
      assume "ensure_file w ctx (project_dir_of ?ws ?fp) (''package.json'', package_json_content) (fs1, {}) = Inl OSError"
      with False assms(1) step show ?thesis
        by (simp add: ensure_critical_files_def Let_def critical_files_def)
    next
      assume "\<exists>fs'. ensure_file w ctx (project_dir_of ?ws ?fp) (''package.json'', package_json_content) (fs1, {}) = Inr (fs', {})
                \<and> only_new_dirs fs1 fs'"
      then obtain fs' where "ensure_file w ctx (project_dir_of ?ws ?fp) (''package.json'', package_json_content) (fs1, {}) = Inr (fs', {})"
        and "only_new_dirs fs1 fs'" by blast
      with False assms(1) step grow show ?thesis
        by (auto simp add: ensure_critical_files_def Let_def critical_files_def intro: only_new_dirs_trans)
    qed
  qed
qed

text \<open>
  Claim C8. When something exists at the path of the manifest, \<^verbatim>\<open>ensure_critical_files\<close>
  either raises the \<^verbatim>\<open>OSError\<close> of a \<^verbatim>\<open>mkdir\<close> or returns the empty set of
  created files, and the disk it leaves differs from the one it found by new directories
  only: what stands at the path of the manifest is unchanged. In particular, called a
  second time on the disk left by a first call on which the manifest exists, it returns
  the empty set and leaves the manifest as it is.
\<close>

theorem ensure_critical_files_never_overwrites:
  assumes "code_doc ctx = Some cd"
    and "target = path_join (project_dir_of (path_parts (root_path cd)) (path_parts (ctx_filename ctx)))
                    (path_parts ''package.json'')"
  shows "(path_exists fs target \<longrightarrow>
            ensure_critical_files w fs ctx = Inl OSError
            \<or> (\<exists>fs'. ensure_critical_files w fs ctx = Inr (fs', {})
                  \<and> only_new_dirs fs fs' \<and> fs' target = fs target))
         \<and> (\<forall>fs1 added1.
               ensure_critical_files w fs ctx = Inr (fs1, added1) \<and> path_exists fs1 target \<longrightarrow>
                 ensure_critical_files w fs1 ctx = Inl OSError
                 \<or> (\<exists>fs2. ensure_critical_files w fs1 ctx = Inr (fs2, {})
                       \<and> only_new_dirs fs1 fs2 \<and> fs2 target = fs1 target))"
proof -
  have once: "ensure_critical_files w d ctx = Inl OSError
            \<or> (\<exists>fs'. ensure_critical_files w d ctx = Inr (fs', {})
                  \<and> only_new_dirs d fs' \<and> fs' target = d target)"
    if ex: "path_exists d target" for d
  proof -
    from ex have "path_exists d
           (path_join (project_dir_of (path_parts (root_path cd)) (path_parts (ctx_filename ctx)))
              (path_parts ''package.json''))"
      by (simp add: assms(2))
    from ensure_critical_files_existing [OF assms(1) this, of w] ex show ?thesis
      by (auto simp add: only_new_dirs_exists)
  qed
  show ?thesis
    using once by blast
qed

text \<open>Two calls in a row from an empty disk: the first creates the manifest, the second nothing.\<close>

theorem ensure_critical_files_never_overwrites_witness:
  "code_doc demo_ctx = Some (demo_doc ''myapp/backend/server.js'' ''old code'')
   \<and> [''ws'', ''myapp'', ''package.json''] =
       path_join (project_dir_of (path_parts (root_path (demo_doc ''myapp/backend/server.js'' ''old code'')))
                    (path_parts (ctx_filename demo_ctx)))
         (path_parts ''package.json'')
   \<and> ensure_critical_files demo_wc_env Map.empty demo_ctx =
       Inr (demo_disk, {''ws/myapp/package.json''})
   \<and> path_exists demo_disk [''ws'', ''myapp'', ''package.json'']
   \<and> ensure_critical_files demo_wc_env demo_disk demo_ctx = Inr (demo_disk, {})
   \<and> demo_disk [''ws'', ''myapp'', ''package.json''] = Some (File package_json_content)"
proof -
  have h1: "code_doc demo_ctx = Some (demo_doc ''myapp/backend/server.js'' ''old code'')"
    by (simp add: demo_defs)
  have h2: "[''ws'', ''myapp'', ''package.json''] =
       path_join (project_dir_of (path_parts (root_path (demo_doc ''myapp/backend/server.js'' ''old code'')))
                    (path_parts (ctx_filename demo_ctx)))
         (path_parts ''package.json'')"
    by (simp add: ensure_defs demo_defs)
  have first: "ensure_critical_files demo_wc_env Map.empty demo_ctx =
       Inr (demo_disk, {''ws/myapp/package.json''})"
    by (simp add: ensure_defs demo_defs demo_disk_def)
  have ex: "path_exists demo_disk [''ws'', ''myapp'', ''package.json'']"
    and at: "demo_disk [''ws'', ''myapp'', ''package.json''] = Some (File package_json_content)"
    by (simp_all add: path_exists_def demo_disk_def)
  have second: "ensure_critical_files demo_wc_env demo_disk demo_ctx = Inr (demo_disk, {})"
    by (simp add: ensure_defs demo_defs demo_disk_def)
  from ensure_critical_files_never_overwrites [OF h1 h2, of Map.empty demo_wc_env] first ex
  have "ensure_critical_files demo_wc_env demo_disk demo_ctx = Inl OSError
        \<or> (\<exists>fs2. ensure_critical_files demo_wc_env demo_disk demo_ctx = Inr (fs2, {})
              \<and> only_new_dirs demo_disk fs2
              \<and> fs2 [''ws'', ''myapp'', ''package.json''] = demo_disk [''ws'', ''myapp'', ''package.json''])"
    by blast
  with h1 h2 first ex second at show ?thesis
    by blast
qed

lemma project_dir_step_named:
  assumes "names_project fp"
    and "pd = path_join ws (path_parts (hd fp))"
    and "\<not> file_in_the_way fs (pd @ [''frontend''])"
    and "\<not> file_in_the_way fs (pd @ [''backend''])"
  shows "\<exists>fs1. project_dir_step fs ws fp = Inr (pd, fs1)
           \<and> fs1 (pd @ [''frontend'']) = Some Dir \<and> fs1 (pd @ [''backend'']) = Some Dir
           \<and> only_new_dirs fs fs1"
proof -
  from mkdir_parents_succeeds [OF assms(3)]
  obtain fsa where a: "mkdir_parents fs (pd @ [''frontend'']) = Inr fsa" by blast
  have grow_a: "only_new_dirs fs fsa" by (rule mkdir_parents_only_new_dirs [OF a])
  have "\<not> file_in_the_way fsa (pd @ [''backend''])"
    using assms(4) file_in_the_way_mono [OF grow_a] by blast
  from mkdir_parents_succeeds [OF this]
  obtain fsb where b: "mkdir_parents fsa (pd @ [''backend'']) = Inr fsb" by blast
  have grow_b: "only_new_dirs fsa fsb" by (rule mkdir_parents_only_new_dirs [OF b])
  have fa: "fsa (pd @ [''frontend'']) = Some Dir"
    using mkdir_parents_last [OF a] by simp
  then have "fsb (pd @ [''frontend'']) = Some Dir"
    using only_new_dirs_exists [OF grow_b, of "pd @ [''frontend'']"] by (simp add: path_exists_def)
  moreover have "fsb (pd @ [''backend'']) = Some Dir"
    using mkdir_parents_last [OF b] by simp
  moreover have "only_new_dirs fs fsb"
    using grow_a grow_b by (rule only_new_dirs_trans)
  moreover have "project_dir_step fs ws fp = Inr (pd, fsb)"
    using assms(1,2) a b
    by (simp add: project_dir_step_def Let_def path_parts_names path_join_name is_absolute_def)
  ultimately show ?thesis by blast
qed

text \<open>
  Claim C9. Past the guard on the code document: when the first part of the filename is
  none of \<^verbatim>\<open>frontend\<close>, \<^verbatim>\<open>backend\<close>, \<^verbatim>\<open>package.json\<close>, the project directory
  is the workspace joined with that part, and, unless a regular file stands in the way of
  one of the two directories, both \<^verbatim>\<open>frontend\<close> and \<^verbatim>\<open>backend\<close> are directories
  under it on the disk on which the loop over the critical files starts. When the first
  part is one of the three names, the project directory is the workspace and the loop
  starts on the disk as it was.
\<close>

theorem project_root_and_sub_areas:
  assumes "code_doc ctx = Some cd"
    and "root_relative_path w cd \<noteq> []"
    and "path_parts (ctx_filename ctx) = seg # rest"
    and "workspace = path_parts (root_path cd)"
  shows "(seg \<notin> set [''frontend'', ''backend'', ''package.json'']
            \<and> \<not> file_in_the_way fs (path_join workspace [seg] @ [''frontend''])
            \<and> \<not> file_in_the_way fs (path_join workspace [seg] @ [''backend''])
          \<longrightarrow> (\<exists>fs1. project_dir_step fs workspace (seg # rest) = Inr (path_join workspace [seg], fs1)
                  \<and> fs1 (path_join workspace [seg] @ [''frontend'']) = Some Dir
                  \<and> fs1 (path_join workspace [seg] @ [''backend'']) = Some Dir
                  \<and> only_new_dirs fs fs1
                  \<and> ensure_critical_files w fs ctx =
                      ensure_files w ctx (path_join workspace [seg]) critical_files (fs1, {})))
         \<and> (seg \<in> set [''frontend'', ''backend'', ''package.json'']
          \<longrightarrow> project_dir_step fs workspace (seg # rest) = Inr (workspace, fs)
              \<and> ensure_critical_files w fs ctx = ensure_files w ctx workspace critical_files (fs, {}))"
proof (intro conjI impI)
  assume h: "seg \<notin> set [''frontend'', ''backend'', ''package.json'']
            \<and> \<not> file_in_the_way fs (path_join workspace [seg] @ [''frontend''])
            \<and> \<not> file_in_the_way fs (path_join workspace [seg] @ [''backend''])"
  have seg: "path_parts seg = [seg]" by (rule path_parts_hd [OF assms(3)])
  from h have np: "names_project (seg # rest)" by (simp add: names_project_def)
  have pd: "path_join workspace [seg] = path_join workspace (path_parts (hd (seg # rest)))"
    by (simp add: seg)
  from project_dir_step_named [OF np pd] h
  obtain fs1 where step: "project_dir_step fs workspace (seg # rest) = Inr (path_join workspace [seg], fs1)"
    and dirs: "fs1 (path_join workspace [seg] @ [''frontend'']) = Some Dir"
      "fs1 (path_join workspace [seg] @ [''backend'']) = Some Dir"
    and grow: "only_new_dirs fs fs1"
    by blast
  have "ensure_critical_files w fs ctx =
          ensure_files w ctx (path_join workspace [seg]) critical_files (fs1, {})"
    using assms step by (simp add: ensure_critical_files_def Let_def)
  with step dirs grow
  show "\<exists>fs1. project_dir_step fs workspace (seg # rest) = Inr (path_join workspace [seg], fs1)
                  \<and> fs1 (path_join workspace [seg] @ [''frontend'']) = Some Dir
                  \<and> fs1 (path_join workspace [seg] @ [''backend'']) = Some Dir
                  \<and> only_new_dirs fs fs1
                  \<and> ensure_critical_files w fs ctx =
                      ensure_files w ctx (path_join workspace [seg]) critical_files (fs1, {})"
    by blast
next
  assume "seg \<in> set [''frontend'', ''backend'', ''package.json'']"
  then have "\<not> names_project (seg # rest)" by (simp add: names_project_def)
  then show step: "project_dir_step fs workspace (seg # rest) = Inr (workspace, fs)"
    by (simp add: project_dir_step_def)
  with assms show "ensure_critical_files w fs ctx = ensure_files w ctx workspace critical_files (fs, {})"
    by (simp add: ensure_critical_files_def Let_def)
qed

text \<open>The filenames \<^verbatim>\<open>myapp/backend/server.js\<close> and \<^verbatim>\<open>package.json\<close> on an empty disk.\<close>

theorem project_root_and_sub_areas_witness:
  "code_doc demo_ctx = Some (demo_doc ''myapp/backend/server.js'' ''old code'')
   \<and> root_relative_path demo_wc_env (demo_doc ''myapp/backend/server.js'' ''old code'') \<noteq> []
   \<and> path_parts (ctx_filename demo_ctx) = [''myapp'', ''backend'', ''server.js'']
   \<and> ''myapp'' \<notin> set [''frontend'', ''backend'', ''package.json'']
   \<and> \<not> file_in_the_way Map.empty [''ws'', ''myapp'', ''frontend'']
   \<and> \<not> file_in_the_way Map.empty [''ws'', ''myapp'', ''backend'']
   \<and> project_dir_step Map.empty [''ws''] [''myapp'', ''backend'', ''server.js''] =
       Inr ([''ws'', ''myapp''],
            [[''ws''] \<mapsto> Dir, [''ws'', ''myapp''] \<mapsto> Dir,
             [''ws'', ''myapp'', ''frontend''] \<mapsto> Dir, [''ws'', ''myapp'', ''backend''] \<mapsto> Dir])
   \<and> code_doc demo_ctx_manifest = Some (demo_doc ''package.json'' [])
   \<and> root_relative_path demo_wc_env (demo_doc ''package.json'' []) \<noteq> []
   \<and> path_parts (ctx_filename demo_ctx_manifest) = [''package.json'']
   \<and> project_dir_step Map.empty [''ws''] [''package.json''] = Inr ([''ws''], Map.empty)
   \<and> ensure_critical_files demo_wc_env Map.empty demo_ctx_manifest =
       Inr ([[''ws''] \<mapsto> Dir, [''ws'', ''package.json''] \<mapsto> File package_json_content],
            {''ws/package.json''})"
proof -
  let ?cd = "demo_doc ''myapp/backend/server.js'' ''old code''"
  let ?cdm = "demo_doc ''package.json'' []"
  have a1: "code_doc demo_ctx = Some ?cd" by (simp add: demo_defs)
  have a2: "root_relative_path demo_wc_env ?cd \<noteq> []" by (simp add: demo_defs)
  have a3: "path_parts (ctx_filename demo_ctx) = ''myapp'' # [''backend'', ''server.js'']"
    by (simp add: demo_defs path_parts_def)
  have a4: "[''ws''] = path_parts (root_path ?cd)" by (simp add: demo_defs path_parts_def)
  have a5: "''myapp'' \<notin> set [''frontend'', ''backend'', ''package.json'']" by simp
  have a6: "\<not> file_in_the_way Map.empty [''ws'', ''myapp'', ''frontend'']"
    "\<not> file_in_the_way Map.empty [''ws'', ''myapp'', ''backend'']"
    by (simp_all add: file_in_the_way_def is_file_def)
  have a7: "path_join [''ws''] [''myapp''] = [''ws'', ''myapp'']"
    by (simp add: path_join_def is_absolute_def)
  have b1: "code_doc demo_ctx_manifest = Some ?cdm" by (simp add: demo_defs)
  have b2: "root_relative_path demo_wc_env ?cdm \<noteq> []" by (simp add: demo_defs)
  have b3: "path_parts (ctx_filename demo_ctx_manifest) = ''package.json'' # []"
    by (simp add: demo_defs path_parts_def)
  have b4: "[''ws''] = path_parts (root_path ?cdm)" by (simp add: demo_defs path_parts_def)
  have b5: "''package.json'' \<in> set [''frontend'', ''backend'', ''package.json'']" by simp
  have step1: "project_dir_step Map.empty [''ws''] [''myapp'', ''backend'', ''server.js''] =
       Inr ([''ws'', ''myapp''],
            [[''ws''] \<mapsto> Dir, [''ws'', ''myapp''] \<mapsto> Dir,
             [''ws'', ''myapp'', ''frontend''] \<mapsto> Dir, [''ws'', ''myapp'', ''backend''] \<mapsto> Dir])"
    by (simp add: ensure_defs)
  from project_root_and_sub_areas [OF b1 b2 b3 b4, of Map.empty] b5
  have step2: "project_dir_step Map.empty [''ws''] [''package.json''] = Inr ([''ws''], Map.empty)"
    and ens2: "ensure_critical_files demo_wc_env Map.empty demo_ctx_manifest =
          ensure_files demo_wc_env demo_ctx_manifest [''ws''] critical_files (Map.empty, {})"
    by blast+
  have ens2': "ensure_critical_files demo_wc_env Map.empty demo_ctx_manifest =
       Inr ([[''ws''] \<mapsto> Dir, [''ws'', ''package.json''] \<mapsto> File package_json_content],
            {''ws/package.json''})"
    unfolding ens2 by (simp add: ensure_defs demo_defs)
  from project_root_and_sub_areas [OF a1 a2 a3 a4, of Map.empty] a5 a6 a7
  have "\<exists>fs1. project_dir_step Map.empty [''ws''] [''myapp'', ''backend'', ''server.js''] =
                Inr ([''ws'', ''myapp''], fs1)
            \<and> fs1 [''ws'', ''myapp'', ''frontend''] = Some Dir
            \<and> fs1 [''ws'', ''myapp'', ''backend''] = Some Dir"
    by auto
  with a1 a2 a3 a5 a6 step1 b1 b2 b3 step2 ens2' show ?thesis
    by simp
qed

section \<open>Properties of \<^verbatim>\<open>WriteDesign\<close>\<close>

lemmas design_demo_defs =
  demo_prd_store_def demo_design_store_def demo_state_def demo_state_design_changed_def
  demo_fill_def demo_dump_def demo_design_env_def demo_loads_def demo_root_relative_path_def

lemmas design_defs =
  design_run_def update_system_design_def call_fill_def store_save_def store_save_doc_def
  after_save_def save_data_api_design_def save_seq_flow_def save_diagram_def save_pdf_def
  get_or_get_def save_mermaid_file_def Let_def

text \<open>The steps after the save leave the stores and the log of backend calls alone.\<close>

lemma save_diagram_keeps:
  "save_diagram dv k1 k2 d st doc = (st', r) \<Longrightarrow>
   llm_calls st' = llm_calls st \<and> system_design st' = system_design st \<and> prd st' = prd st"
  by (auto simp add: save_diagram_def save_mermaid_file_def split: option.splits sum.splits if_splits)

lemma save_pdf_keeps:
  "save_pdf dv st doc = (st', r) \<Longrightarrow>
   llm_calls st' = llm_calls st \<and> system_design st' = system_design st \<and> prd st' = prd st"
  by (auto simp add: save_pdf_def)

lemma after_save_keeps:
  assumes "after_save dv st doc = (st', r)"
  shows "llm_calls st' = llm_calls st \<and> system_design st' = system_design st \<and> prd st' = prd st"
proof -
  obtain s1 r1 where a: "save_diagram dv (DATA_STRUCTURES_AND_INTERFACES_key dv)
       (REFINED_DATA_STRUCTURES_AND_INTERFACES_key dv) (DATA_API_DESIGN_FILE_REPO dv) st doc = (s1, r1)"
    by (cases "save_diagram dv (DATA_STRUCTURES_AND_INTERFACES_key dv)
       (REFINED_DATA_STRUCTURES_AND_INTERFACES_key dv) (DATA_API_DESIGN_FILE_REPO dv) st doc")
  obtain s2 r2 where b: "save_diagram dv (PROGRAM_CALL_FLOW_key dv) (REFINED_PROGRAM_CALL_FLOW_key dv)
       (SEQ_FLOW_FILE_REPO dv) s1 doc = (s2, r2)"
    by (cases "save_diagram dv (PROGRAM_CALL_FLOW_key dv) (REFINED_PROGRAM_CALL_FLOW_key dv)
       (SEQ_FLOW_FILE_REPO dv) s1 doc")
  obtain s3 r3 where c: "save_pdf dv s2 doc = (s3, r3)"
    by (cases "save_pdf dv s2 doc")
  note ka = save_diagram_keeps [OF a] and kb = save_diagram_keeps [OF b] and kc = save_pdf_keeps [OF c]
  from assms a b c have "st' = s1 \<or> st' = s2 \<or> st' = s3"
    by (auto simp add: after_save_def save_data_api_design_def save_seq_flow_def split: sum.splits)
  with ka kb kc show ?thesis by auto
qed


text \<open>The first loop of \<^verbatim>\<open>run\<close>, and the second one when it has nothing left to handle.\<close>

lemma dict_set_keys: "fst ` set (dict_set k v kvs) = insert k (fst ` set kvs)"
  by (induction kvs) force+

lemma prd_loop_facts:
  "prd_loop st fs cd = (st', cd') \<Longrightarrow>
   llm_calls st' = llm_calls st \<and> prd st' = prd st
   \<and> mermaid_calls st' = mermaid_calls st \<and> pdf_calls st' = pdf_calls st
   \<and> store_root (system_design st') = store_root (system_design st)
   \<and> fst ` set cd' = fst ` set cd \<union> set fs
   \<and> (\<forall>f\<in>set fs.
         store_docs (system_design st') f =
           Some \<lparr>root_path = store_root (system_design st), filename = f, content = REACT_NODE_TEMPLATE\<rparr>
         \<and> store_deps (system_design st') f =
           Some {path_str (path_join (workdir (prd st)) (path_parts f))})"
proof (induction fs arbitrary: st cd)
  case Nil
  then show ?case by simp
next
  case (Cons f fs)
  let ?s1 = "st\<lparr>system_design := fst (store_save (system_design st) f REACT_NODE_TEMPLATE
                    {path_str (path_join (workdir (prd st)) (path_parts f))})\<rparr>"
  let ?cd1 = "dict_set f \<lparr>root_path = [], filename = f, content = REACT_NODE_TEMPLATE\<rparr> cd"
  from Cons.prems have step: "prd_loop ?s1 fs ?cd1 = (st', cd')"
    by (simp add: Let_def)
  note ih = Cons.IH [OF step]
  have keys: "fst ` set ?cd1 = insert f (fst ` set cd)"
    by (rule dict_set_keys)
  have later: "store_docs (system_design st') f =
           Some \<lparr>root_path = store_root (system_design st), filename = f, content = REACT_NODE_TEMPLATE\<rparr>
         \<and> store_deps (system_design st') f =
           Some {path_str (path_join (workdir (prd st)) (path_parts f))}"
  proof (cases "f \<in> set fs")
    case True
    with ih show ?thesis by (simp add: store_save_def Let_def)
  next
    case False
    have "\<And>g. g \<notin> set fs \<Longrightarrow>
            store_docs (system_design (fst (prd_loop s fs c))) g = store_docs (system_design s) g
            \<and> store_deps (system_design (fst (prd_loop s fs c))) g = store_deps (system_design s) g"
      for s :: design_state and c
      by (induction fs arbitrary: s c) (auto simp add: store_save_def Let_def)
    from this [OF False, of ?s1 ?cd1] step show ?thesis
      by (simp add: store_save_def Let_def)
  qed
  from ih keys later show ?case
    by (auto simp add: store_save_def Let_def)
qed

lemma design_loop_all_handled:
  "set fs \<subseteq> fst ` set cd \<Longrightarrow> design_loop dv st fs cd = (st, Inr cd)"
  by (induction fs) auto

text \<open>The two branches of \<^verbatim>\<open>_update_system_design\<close> up to the save.\<close>

lemma update_system_design_new:
  assumes "store_docs (system_design st) fname = None"
    and "store_docs (prd st) fname = Some p"
    and "fill dv DESIGN_API_NODE (content p) (length (llm_calls st)) = Inr ic"
  shows "update_system_design dv st fname =
           after_save dv
             (st\<lparr>llm_calls := llm_calls st @ [(DESIGN_API_NODE, content p)],
                 system_design := fst (store_save (system_design st) fname (model_dump_json dv ic)
                                         {doc_root_relative_path dv p})\<rparr>)
             \<lparr>root_path = store_root (system_design st), filename = fname,
               content = model_dump_json dv ic\<rparr>"
  using assms by (simp add: update_system_design_def call_fill_def store_save_def Let_def)


text \<open>
  Claim C1, as amended. For every requirement filename reported as changed, the first
  loop of \<^verbatim>\<open>run\<close> saves the fixed template \<^verbatim>\<open>REACT_NODE_TEMPLATE\<close> as the design
  document, with the path of the requirement document as its dependency, and does not
  call the backend; when every changed design filename is also a changed requirement
  filename, this is all that \<^verbatim>\<open>run\<close> does. The NEW path is taken by
  \<^verbatim>\<open>_update_system_design\<close> (which \<^verbatim>\<open>run\<close> reaches for changed design filenames
  that are not changed requirement filenames): when no design document exists, the
  backend is called once, with the content of the requirement document as context, and
  its serialized result is saved as the design document with the requirement document
  as its dependency.
\<close>

theorem changed_prd_template_and_new_path:
  "(fname \<in> set (changed_files (prd st)) \<longrightarrow>
      llm_calls (fst (prd_loop st (changed_files (prd st)) [])) = llm_calls st
      \<and> store_docs (system_design (fst (prd_loop st (changed_files (prd st)) []))) fname =
          Some \<lparr>root_path = store_root (system_design st), filename = fname,
                content = REACT_NODE_TEMPLATE\<rparr>
      \<and> store_deps (system_design (fst (prd_loop st (changed_files (prd st)) []))) fname =
          Some {path_str (path_join (workdir (prd st)) (path_parts fname))}
      \<and> (set (changed_files (system_design st)) \<subseteq> set (changed_files (prd st)) \<longrightarrow>
            fst (design_run dv st) = fst (prd_loop st (changed_files (prd st)) [])
            \<and> snd (design_run dv st) = Inr (snd (prd_loop st (changed_files (prd st)) []))))
   \<and> (store_docs (system_design st) fname = None
        \<and> store_docs (prd st) fname = Some p
        \<and> fill dv DESIGN_API_NODE (content p) (length (llm_calls st)) = Inr ic \<longrightarrow>
      llm_calls (fst (update_system_design dv st fname)) =
          llm_calls st @ [(DESIGN_API_NODE, content p)]
      \<and> store_docs (system_design (fst (update_system_design dv st fname))) fname =
          Some \<lparr>root_path = store_root (system_design st), filename = fname,
                content = model_dump_json dv ic\<rparr>
      \<and> store_deps (system_design (fst (update_system_design dv st fname))) fname =
          Some {doc_root_relative_path dv p})"
proof (intro conjI impI)
  obtain st' cd' where loop: "prd_loop st (changed_files (prd st)) [] = (st', cd')"
    by (cases "prd_loop st (changed_files (prd st)) []")
  note facts = prd_loop_facts [OF loop]
  assume mem: "fname \<in> set (changed_files (prd st))"
  from facts show "llm_calls (fst (prd_loop st (changed_files (prd st)) [])) = llm_calls st"
    by (simp add: loop)
  from facts mem show "store_docs (system_design (fst (prd_loop st (changed_files (prd st)) []))) fname =
          Some \<lparr>root_path = store_root (system_design st), filename = fname,
                content = REACT_NODE_TEMPLATE\<rparr>"
    by (simp add: loop)
  from facts mem show "store_deps (system_design (fst (prd_loop st (changed_files (prd st)) []))) fname =
          Some {path_str (path_join (workdir (prd st)) (path_parts fname))}"
    by (simp add: loop)
  assume "set (changed_files (system_design st)) \<subseteq> set (changed_files (prd st))"
  with facts have "set (changed_files (system_design st)) \<subseteq> fst ` set cd'" by simp
  from design_loop_all_handled [OF this, of dv st']
  show "fst (design_run dv st) = fst (prd_loop st (changed_files (prd st)) [])"
    and "snd (design_run dv st) = Inr (snd (prd_loop st (changed_files (prd st)) []))"
    by (simp_all add: design_run_def Let_def loop)
next
  assume h: "store_docs (system_design st) fname = None
        \<and> store_docs (prd st) fname = Some p
        \<and> fill dv DESIGN_API_NODE (content p) (length (llm_calls st)) = Inr ic"
  let ?s1 = "st\<lparr>llm_calls := llm_calls st @ [(DESIGN_API_NODE, content p)],
                 system_design := fst (store_save (system_design st) fname (model_dump_json dv ic)
                                         {doc_root_relative_path dv p})\<rparr>"
  let ?doc = "\<lparr>root_path = store_root (system_design st), filename = fname,
               content = model_dump_json dv ic\<rparr>"
  from h have eq: "update_system_design dv st fname = after_save dv ?s1 ?doc"
    by (intro update_system_design_new) simp_all
  obtain st' r where res: "after_save dv ?s1 ?doc = (st', r)"
    by (cases "after_save dv ?s1 ?doc")
  have st': "fst (update_system_design dv st fname) = st'"
    by (simp add: eq res)
  from after_save_keeps [OF res]
  have calls: "llm_calls st' = llm_calls st @ [(DESIGN_API_NODE, content p)]"
    and store: "system_design st' =
      fst (store_save (system_design st) fname (model_dump_json dv ic) {doc_root_relative_path dv p})"
    by simp_all
  from calls show "llm_calls (fst (update_system_design dv st fname)) =
          llm_calls st @ [(DESIGN_API_NODE, content p)]"
    by (simp only: st')
  show "store_docs (system_design (fst (update_system_design dv st fname))) fname =
          Some \<lparr>root_path = store_root (system_design st), filename = fname,
                content = model_dump_json dv ic\<rparr>"
    unfolding st' store by (simp add: store_save_def Let_def)
  show "store_deps (system_design (fst (update_system_design dv st fname))) fname =
          Some {doc_root_relative_path dv p}"
    unfolding st' store by (simp add: store_save_def Let_def)
qed


text \<open>The changed requirement \<^verbatim>\<open>a.md\<close> through \<^verbatim>\<open>run\<close>, and through \<^verbatim>\<open>_update_system_design\<close>.\<close>

theorem changed_prd_template_and_new_path_witness:
  "''a.md'' \<in> set (changed_files (prd demo_state))
   \<and> set (changed_files (system_design demo_state)) \<subseteq> set (changed_files (prd demo_state))
   \<and> llm_calls (fst (design_run demo_design_env demo_state)) = []
   \<and> store_docs (system_design (fst (design_run demo_design_env demo_state))) ''a.md'' =
       Some \<lparr>root_path = ''docs/system_design'', filename = ''a.md'', content = REACT_NODE_TEMPLATE\<rparr>
   \<and> store_deps (system_design (fst (design_run demo_design_env demo_state))) ''a.md'' =
       Some {''ws/docs/prd/a.md''}
   \<and> store_docs (system_design demo_state_design_changed) ''a.md'' = None
   \<and> store_docs (prd demo_state_design_changed) ''a.md'' =
       Some \<lparr>root_path = ''docs/prd'', filename = ''a.md'', content = ''need X''\<rparr>
   \<and> fill demo_design_env DESIGN_API_NODE ''need X'' 0 =
       Inr (JObj [(''Implementation approach'', JStr ''need X'')])
   \<and> llm_calls (fst (update_system_design demo_design_env demo_state_design_changed ''a.md'')) =
       [(DESIGN_API_NODE, ''need X'')]
   \<and> store_docs (system_design (fst (update_system_design demo_design_env demo_state_design_changed ''a.md'')))
        ''a.md'' =
       Some \<lparr>root_path = ''docs/system_design'', filename = ''a.md'', content = ''{}''\<rparr>
   \<and> store_deps (system_design (fst (update_system_design demo_design_env demo_state_design_changed ''a.md'')))
        ''a.md'' =
       Some {''docs/prd/a.md''}"
proof -
  let ?p = "\<lparr>root_path = ''docs/prd'', filename = ''a.md'', content = ''need X''\<rparr>"
  let ?ic = "JObj [(''Implementation approach'', JStr ''need X'')]"
  have a1: "''a.md'' \<in> set (changed_files (prd demo_state))"
    by (simp add: design_demo_defs)
  have a2: "set (changed_files (system_design demo_state)) \<subseteq> set (changed_files (prd demo_state))"
    by (simp add: design_demo_defs)
  have a3: "llm_calls demo_state = []" "store_root (system_design demo_state) = ''docs/system_design''"
    "path_str (path_join (workdir (prd demo_state)) (path_parts ''a.md'')) = ''ws/docs/prd/a.md''"
    by (simp_all add: design_demo_defs path_str_def path_join_def path_parts_def is_absolute_def)
  have b1: "store_docs (system_design demo_state_design_changed) ''a.md'' = None"
    by (simp add: design_demo_defs)
  have b2: "store_docs (prd demo_state_design_changed) ''a.md'' = Some ?p"
    by (simp add: design_demo_defs)
  have b3: "fill demo_design_env DESIGN_API_NODE (content ?p) (length (llm_calls demo_state_design_changed)) =
       Inr ?ic"
    by (simp add: design_demo_defs)
  have b4: "llm_calls demo_state_design_changed = []"
    "store_root (system_design demo_state_design_changed) = ''docs/system_design''"
    "model_dump_json demo_design_env ?ic = ''{}''"
    "doc_root_relative_path demo_design_env ?p = ''docs/prd/a.md''"
    by (simp_all add: design_demo_defs)
  note thm_a = changed_prd_template_and_new_path [of "''a.md''" demo_state demo_design_env ?p ?ic]
  note thm_b = changed_prd_template_and_new_path
    [of "''a.md''" demo_state_design_changed demo_design_env ?p ?ic]
  from thm_a a1 a2 have
    "llm_calls (fst (design_run demo_design_env demo_state)) = llm_calls demo_state
     \<and> store_docs (system_design (fst (design_run demo_design_env demo_state))) ''a.md'' =
          Some \<lparr>root_path = store_root (system_design demo_state), filename = ''a.md'',
                content = REACT_NODE_TEMPLATE\<rparr>
     \<and> store_deps (system_design (fst (design_run demo_design_env demo_state))) ''a.md'' =
          Some {path_str (path_join (workdir (prd demo_state)) (path_parts ''a.md''))}"
    by simp
  then have ra: "llm_calls (fst (design_run demo_design_env demo_state)) = []
     \<and> store_docs (system_design (fst (design_run demo_design_env demo_state))) ''a.md'' =
          Some \<lparr>root_path = ''docs/system_design'', filename = ''a.md'', content = REACT_NODE_TEMPLATE\<rparr>
     \<and> store_deps (system_design (fst (design_run demo_design_env demo_state))) ''a.md'' =
          Some {''ws/docs/prd/a.md''}"
    by (simp only: a3)
  from thm_b b1 b2 b3 have
    "llm_calls (fst (update_system_design demo_design_env demo_state_design_changed ''a.md'')) =
          llm_calls demo_state_design_changed @ [(DESIGN_API_NODE, content ?p)]
     \<and> store_docs (system_design (fst (update_system_design demo_design_env demo_state_design_changed ''a.md'')))
          ''a.md'' =
          Some \<lparr>root_path = store_root (system_design demo_state_design_changed), filename = ''a.md'',
                content = model_dump_json demo_design_env ?ic\<rparr>
     \<and> store_deps (system_design (fst (update_system_design demo_design_env demo_state_design_changed ''a.md'')))
          ''a.md'' =
          Some {doc_root_relative_path demo_design_env ?p}"
    by blast
  then have rb: "llm_calls (fst (update_system_design demo_design_env demo_state_design_changed ''a.md'')) =
          [(DESIGN_API_NODE, ''need X'')]
     \<and> store_docs (system_design (fst (update_system_design demo_design_env demo_state_design_changed ''a.md'')))
          ''a.md'' =
          Some \<lparr>root_path = ''docs/system_design'', filename = ''a.md'', content = ''{}''\<rparr>
     \<and> store_deps (system_design (fst (update_system_design demo_design_env demo_state_design_changed ''a.md'')))
          ''a.md'' =
          Some {''docs/prd/a.md''}"
    by (simp add: b4)
  have b3': "fill demo_design_env DESIGN_API_NODE ''need X'' 0 = Inr ?ic"
    by (simp add: design_demo_defs)
  from a1 a2 ra b1 b2 b3' rb show ?thesis by blast
qed

text \<open>
  Claim C1 as stated fails: \<^verbatim>\<open>a.md\<close> is a changed requirement document without a
  design document, and \<^verbatim>\<open>run\<close> calls the backend zero times and saves the template,
  which is not what the backend's result serializes to.
\<close>

theorem changed_prd_new_path_counterexample:
  "''a.md'' \<in> set (changed_files (prd demo_state))
   \<and> store_docs (system_design demo_state) ''a.md'' = None
   \<and> map_option content (store_docs (prd demo_state) ''a.md'') = Some ''need X''
   \<and> llm_calls demo_state = []
   \<and> llm_calls (fst (design_run demo_design_env demo_state)) = []
   \<and> map_option content (store_docs (system_design (fst (design_run demo_design_env demo_state))) ''a.md'') =
       Some REACT_NODE_TEMPLATE
   \<and> REACT_NODE_TEMPLATE \<noteq>
       model_dump_json demo_design_env (JObj [(''Implementation approach'', JStr ''need X'')])"
proof -
  have ne: "REACT_NODE_TEMPLATE \<noteq>
       model_dump_json demo_design_env (JObj [(''Implementation approach'', JStr ''need X'')])"
    by (simp add: design_demo_defs REACT_NODE_TEMPLATE_def)
  have run: "llm_calls (fst (design_run demo_design_env demo_state)) = []
     \<and> map_option content (store_docs (system_design (fst (design_run demo_design_env demo_state))) ''a.md'') =
       Some REACT_NODE_TEMPLATE"
    by (simp add: design_run_def Let_def store_save_def design_demo_defs)
  have pre: "''a.md'' \<in> set (changed_files (prd demo_state))"
    "store_docs (system_design demo_state) ''a.md'' = None"
    "map_option content (store_docs (prd demo_state) ''a.md'') = Some ''need X''"
    "llm_calls demo_state = []"
    by (simp_all add: design_demo_defs)
  from pre run ne show ?thesis by blast
qed






end
